theory Spec2Isabelle
  imports Main "HOL-Library.Word" "HOL-Library.Sublist"
begin

unbundle bit_operations_syntax

section \<open>JavaScript values, errors and results\<close>

text \<open>
  A thrown JavaScript error is a value: \<open>Error msg\<close> for \<open>new Error(msg)\<close> and
  \<open>TypeError msg\<close> for \<open>new TypeError(msg)\<close> (also the engine's own type errors, such
  as calling \<open>undefined\<close>). A function that may throw returns \<open>jserror + 'a\<close>, with
  \<open>Inl\<close> the thrown error.

  Strings are \<open>string\<close>: one \<open>char\<close> per UTF-16 code unit, restricted to the code
  units below 256. Numbers are the integers (the integral doubles of the safe range);
  the \<open>NaN\<close> that \<open>parseInt\<close> can return is \<open>None\<close> of an \<open>int option\<close>.
\<close>

datatype jserror = Error string | TypeError string

datatype jsval = JUndefined | JNull | JBool bool | JNum int | JStr string

type_synonym byte = "8 word"

fun truthy :: "jsval \<Rightarrow> bool" where
  "truthy JUndefined = False"
| "truthy JNull = False"
| "truthy (JBool b) = b"
| "truthy (JNum n) = (n \<noteq> 0)"
| "truthy (JStr s) = (s \<noteq> [])"

text \<open>\<open>a || b\<close> on values.\<close>

definition js_or :: "jsval \<Rightarrow> jsval \<Rightarrow> jsval" where
  "js_or a b = (if truthy a then a else b)"

definition digit_char :: "nat \<Rightarrow> char" where
  "digit_char d = char_of (48 + d)"

fun show_nat :: "nat \<Rightarrow> string" where
  "show_nat n = (if n < 10 then [digit_char n] else show_nat (n div 10) @ [digit_char (n mod 10)])"

declare show_nat.simps [simp del]

definition show_int :: "int \<Rightarrow> string" where
  "show_int i = (if i < 0 then CHR ''-'' # show_nat (nat (- i)) else show_nat (nat i))"

text \<open>\<open>'' + v\<close> and \<open>String(v)\<close>: the ToString conversion.\<close>

fun to_string :: "jsval \<Rightarrow> string" where
  "to_string JUndefined = ''undefined''"
| "to_string JNull = ''null''"
| "to_string (JBool b) = (if b then ''true'' else ''false'')"
| "to_string (JNum n) = show_int n"
| "to_string (JStr s) = s"

definition is_digit :: "char \<Rightarrow> bool" where
  "is_digit c = (c \<in> set ''0123456789'')"

definition digit_val :: "char \<Rightarrow> nat" where
  "digit_val c = of_char c - 48"

text \<open>The value of a string of decimal digits, most significant first.\<close>

definition digits_val :: "string \<Rightarrow> nat" where
  "digits_val ds = foldl (\<lambda>acc c. 10 * acc + digit_val c) 0 ds"

section \<open>SASL / SCRAM-SHA-256 (lib/crypto/sasl.js)\<close>

subsection \<open>Sessions, transports and the crypto helpers\<close>

text \<open>
  The transport handed to the SCRAM engine: \<open>None\<close> as a \<open>stream option\<close> is a falsy
  argument (\<open>false\<close>, \<open>undefined\<close>). Of a stream object only
  \<open>getPeerCertificate\<close> is read: \<open>None\<close> when \<open>typeof stream.getPeerCertificate\<close> is
  not \<open>'function'\<close> (a plain socket), \<open>Some raw\<close> when it is, with \<open>raw\<close> the bytes of
  \<open>stream.getPeerCertificate().raw\<close>.
\<close>

record stream =
  getPeerCertificate :: "byte list option"

record session =
  mechanism :: string
  clientNonce :: string
  response :: string
  message :: string
  serverSignature :: "string option"

text \<open>
  \<open>./crypto/utils\<close> and \<open>./crypto/cert-signatures\<close> are not part of the sources at
  hand, and \<open>Buffer\<close>'s base64 codec is the platform's: they are parameters of the
  model. Every helper may throw.
\<close>

record crypto =
  deriveKey :: "string \<Rightarrow> byte list \<Rightarrow> nat \<Rightarrow> jserror + byte list"
  hmacSha256 :: "byte list \<Rightarrow> string \<Rightarrow> jserror + byte list"
  sha256 :: "byte list \<Rightarrow> jserror + byte list"
  hashByName :: "string \<Rightarrow> byte list \<Rightarrow> jserror + byte list"
  signatureAlgorithmHashFromCertificate :: "byte list \<Rightarrow> jserror + string"
  postgresMd5PasswordHash :: "jsval \<Rightarrow> jsval \<Rightarrow> byte list \<Rightarrow> jserror + string"
  base64_encode :: "byte list \<Rightarrow> string"
  base64_decode :: "string \<Rightarrow> byte list"

definition bind_result :: "jserror + 'a \<Rightarrow> ('a \<Rightarrow> jserror + 'b) \<Rightarrow> jserror + 'b" where
  "bind_result m f = (case m of Inl e \<Rightarrow> Inl e | Inr x \<Rightarrow> f x)"

subsection \<open>startSession\<close>

text \<open>\<open>xs.join(sep)\<close>\<close>

fun join :: "string \<Rightarrow> string list \<Rightarrow> string" where
  "join sep [] = []"
| "join sep [x] = x"
| "join sep (x # y # ys) = x @ sep @ join sep (y # ys)"

text \<open>
  \<open>clientNonce\<close> is \<open>crypto.randomBytes(18).toString('base64')\<close>, the one
  nondeterministic input of \<open>startSession\<close>; it is passed in.
\<close>

definition startSession :: "string list \<Rightarrow> stream option \<Rightarrow> string \<Rightarrow> jserror + session" where
  "startSession mechanisms stream nonce =
    (let candidates = (if stream \<noteq> None then [''SCRAM-SHA-256-PLUS''] else []) @ [''SCRAM-SHA-256'']
     in case find (\<lambda>candidate. candidate \<in> set mechanisms) candidates of
          None \<Rightarrow>
            Inl (Error (''SASL: Only mechanism(s) '' @ join '' and '' candidates @ '' are supported''))
        | Some mech \<Rightarrow>
            if mech = ''SCRAM-SHA-256-PLUS'' \<and>
               (case stream of None \<Rightarrow> True | Some s \<Rightarrow> getPeerCertificate s = None)
            then Inl (Error ''SASL: Mechanism SCRAM-SHA-256-PLUS requires a certificate'')
            else
              let gs2Header =
                    (if mech = ''SCRAM-SHA-256-PLUS'' then ''p=tls-server-end-point''
                     else if stream \<noteq> None then ''y'' else ''n'')
              in Inr \<lparr>mechanism = mech, clientNonce = nonce,
                      response = gs2Header @ '',,n=*,r='' @ nonce,
                      message = ''SASLInitialResponse'', serverSignature = None\<rparr>)"

subsection \<open>Parsing the server's messages\<close>

text \<open>\<open>isPrintableChars\<close>: every code unit in \<open>0x21..0x2b\<close> or \<open>0x2d..0x7e\<close>.\<close>

definition isPrintableChars :: "string \<Rightarrow> bool" where
  "isPrintableChars text =
     list_all (\<lambda>ch. let c = (of_char ch :: nat) in (33 \<le> c \<and> c \<le> 43) \<or> (45 \<le> c \<and> c \<le> 126)) text"

definition base64_char :: "char \<Rightarrow> bool" where
  "base64_char c = (c \<in> set ''abcdefghijklmnopqrstuvwxyzABCDEFGHIJKLMNOPQRSTUVWXYZ0123456789+/'')"

text \<open>\<open>isBase64\<close>: the regular expression
  \<^verbatim>\<open>^(?:[a-zA-Z0-9+/]{4})*(?:[a-zA-Z0-9+/]{2}==|[a-zA-Z0-9+/]{3}=)?$\<close>, four characters
  at a time.\<close>

fun isBase64 :: "string \<Rightarrow> bool" where
  "isBase64 [] = True"
| "isBase64 [a, b, c, d] =
     (base64_char a \<and> base64_char b \<and>
      ((base64_char c \<and> (base64_char d \<or> d = CHR ''='')) \<or> (c = CHR ''='' \<and> d = CHR ''='')))"
| "isBase64 (a # b # c # d # rest) =
     (base64_char a \<and> base64_char b \<and> base64_char c \<and> base64_char d \<and> isBase64 rest)"
| "isBase64 _ = False"

text \<open>\<open>text.split(',')\<close>: never empty, \<open>''.split(',')\<close> is \<open>['']\<close>.\<close>

fun split_comma :: "string \<Rightarrow> string list" where
  "split_comma [] = [[]]"
| "split_comma (c # cs) =
     (if c = CHR '','' then [] # split_comma cs
      else (case split_comma cs of [] \<Rightarrow> [[c]] | p # ps \<Rightarrow> (c # p) # ps))"

text \<open>The regular expression \<^verbatim>\<open>^.=\<close>: a first code unit that is no line terminator
  (\<open>\n\<close>, \<open>\r\<close>; the two others, U+2028 and U+2029, are beyond the code units modelled),
  then \<open>=\<close>.\<close>

definition line_terminator :: "char \<Rightarrow> bool" where
  "line_terminator c = (of_char c = (10 :: nat) \<or> of_char c = (13 :: nat))"

text \<open>The entries handed to \<open>new Map\<close>, in order; the first bad entry throws.\<close>

fun attribute_entries :: "string list \<Rightarrow> jserror + (char \<times> string) list" where
  "attribute_entries [] = Inr []"
| "attribute_entries (attrValue # rest) =
     (case attrValue of
        name # eq # val \<Rightarrow>
          if \<not> line_terminator name \<and> eq = CHR ''=''
          then (case attribute_entries rest of
                  Inl e \<Rightarrow> Inl e
                | Inr es \<Rightarrow> Inr ((name, val) # es))
          else Inl (Error ''SASL: Invalid attribute pair entry'')
      | _ \<Rightarrow> Inl (Error ''SASL: Invalid attribute pair entry''))"

definition parseAttributePairs :: "jsval \<Rightarrow> jserror + (char \<times> string) list" where
  "parseAttributePairs text =
     (case text of
        JStr t \<Rightarrow> attribute_entries (split_comma t)
      | _ \<Rightarrow> Inl (TypeError ''SASL: attribute pairs text must be a string''))"

text \<open>\<open>attrPairs.get(k)\<close>: in a \<open>Map\<close> built from entries the last entry of a key wins.\<close>

definition map_get :: "(char \<times> string) list \<Rightarrow> char \<Rightarrow> string option" where
  "map_get es k = map_of (rev es) k"

text \<open>\<open>!v\<close> for the result of a \<open>get\<close>: \<open>undefined\<close> or the empty string.\<close>

definition absent :: "string option \<Rightarrow> bool" where
  "absent v = (v = None \<or> v = Some [])"

text \<open>The regular expression \<^verbatim>\<open>^[1-9][0-9]*$\<close>.\<close>

fun iteration_regex :: "string \<Rightarrow> bool" where
  "iteration_regex [] = False"
| "iteration_regex (c # cs) = (c \<in> set ''123456789'' \<and> list_all is_digit cs)"

record server_first =
  nonce :: string
  salt :: string
  iteration :: nat

definition parseServerFirstMessage :: "jsval \<Rightarrow> jserror + server_first" where
  "parseServerFirstMessage data =
     bind_result (parseAttributePairs data) (\<lambda>attrPairs.
       let n = map_get attrPairs CHR ''r'' in
       if absent n then Inl (Error ''SASL: SCRAM-SERVER-FIRST-MESSAGE: nonce missing'')
       else if \<not> isPrintableChars (the n)
       then Inl (Error ''SASL: SCRAM-SERVER-FIRST-MESSAGE: nonce must only contain printable characters'')
       else
         let s = map_get attrPairs CHR ''s'' in
         if absent s then Inl (Error ''SASL: SCRAM-SERVER-FIRST-MESSAGE: salt missing'')
         else if \<not> isBase64 (the s)
         then Inl (Error ''SASL: SCRAM-SERVER-FIRST-MESSAGE: salt must be base64'')
         else
           let iterationText = map_get attrPairs CHR ''i'' in
           if absent iterationText
           then Inl (Error ''SASL: SCRAM-SERVER-FIRST-MESSAGE: iteration missing'')
           else if \<not> iteration_regex (the iterationText)
           then Inl (Error ''SASL: SCRAM-SERVER-FIRST-MESSAGE: invalid iteration count'')
           else Inr \<lparr>nonce = the n, salt = the s, iteration = digits_val (the iterationText)\<rparr>)"

definition parseServerFinalMessage :: "jsval \<Rightarrow> jserror + string" where
  "parseServerFinalMessage serverData =
     bind_result (parseAttributePairs serverData) (\<lambda>attrPairs.
       let err = map_get attrPairs CHR ''e''; sig = map_get attrPairs CHR ''v'' in
       if \<not> absent err
       then Inl (Error (''SASL: SCRAM-SERVER-FINAL-MESSAGE: server returned error: '' @ [CHR 0x22] @ the err @ [CHR 0x22]))
       else if absent sig
       then Inl (Error ''SASL: SCRAM-SERVER-FINAL-MESSAGE: server signature is missing'')
       else if \<not> isBase64 (the sig)
       then Inl (Error ''SASL: SCRAM-SERVER-FINAL-MESSAGE: server signature must be base64'')
       else Inr (the sig))"

subsection \<open>xorBuffers\<close>

text \<open>An argument of \<open>xorBuffers\<close>: a \<open>Buffer\<close> of bytes, or anything else.\<close>

datatype bufarg = Buffer "byte list" | NotBuffer

definition xorBuffers :: "bufarg \<Rightarrow> bufarg \<Rightarrow> jserror + byte list" where
  "xorBuffers a b =
     (case a of
        NotBuffer \<Rightarrow> Inl (TypeError ''first argument must be a Buffer'')
      | Buffer as \<Rightarrow>
          (case b of
             NotBuffer \<Rightarrow> Inl (TypeError ''second argument must be a Buffer'')
           | Buffer bs \<Rightarrow>
               if length as \<noteq> length bs then Inl (Error ''Buffer lengths must match'')
               else if length as = 0 then Inl (Error ''Buffers cannot be empty'')
               else Inr (map (\<lambda>i. (as ! i) XOR (bs ! i)) [0..<length as])))"

subsection \<open>continueSession and finalizeSession\<close>

text \<open>\<open>Buffer.from(text)\<close>: the bytes of a string (UTF-8; one byte per code unit below
  128).\<close>

definition bytes_of :: "string \<Rightarrow> byte list" where
  "bytes_of s = map of_char s"

text \<open>
  The \<open>await\<close>s of \<open>continueSession\<close> are sequenced: each helper's result, or its
  error, before the next call. The session is updated only at the very end, so a thrown
  error leaves it as it was; \<open>Inr\<close> carries the updated session.
\<close>

definition continueSession ::
  "crypto \<Rightarrow> session \<Rightarrow> jsval \<Rightarrow> jsval \<Rightarrow> stream option \<Rightarrow> jserror + session" where
  "continueSession cr sess password serverData stream =
    (if message sess \<noteq> ''SASLInitialResponse''
     then Inl (Error ''SASL: Last message was not SASLInitialResponse'')
     else case password of
       JStr pw \<Rightarrow>
        (if pw = []
         then Inl (Error ''SASL: SCRAM-SERVER-FIRST-MESSAGE: client password must be a non-empty string'')
         else case serverData of
           JStr sd \<Rightarrow>
             bind_result (parseServerFirstMessage (JStr sd)) (\<lambda>sv.
               if \<not> prefix (clientNonce sess) (nonce sv)
               then Inl (Error ''SASL: SCRAM-SERVER-FIRST-MESSAGE: server nonce does not start with client nonce'')
               else if length (nonce sv) = length (clientNonce sess)
               then Inl (Error ''SASL: SCRAM-SERVER-FIRST-MESSAGE: server nonce is too short'')
               else
                 let clientFirstMessageBare = ''n=*,r='' @ clientNonce sess;
                     serverFirstMessage =
                       ''r='' @ nonce sv @ '',s='' @ salt sv @ '',i='' @ show_nat (iteration sv)
                 in
                 bind_result
                   (if mechanism sess = ''SCRAM-SHA-256-PLUS''
                    then (case stream of
                            None \<Rightarrow> Inl (TypeError ''stream.getPeerCertificate is not a function'')
                          | Some st \<Rightarrow>
                             (case getPeerCertificate st of
                                None \<Rightarrow> Inl (TypeError ''stream.getPeerCertificate is not a function'')
                              | Some peerCert \<Rightarrow>
                                  bind_result (signatureAlgorithmHashFromCertificate cr peerCert) (\<lambda>h.
                                    let hashName = (if h = ''MD5'' \<or> h = ''SHA-1'' then ''SHA-256'' else h) in
                                    bind_result (hashByName cr hashName peerCert) (\<lambda>certHash.
                                      Inr (base64_encode cr (bytes_of ''p=tls-server-end-point,,'' @ certHash))))))
                    else Inr (if stream \<noteq> None then ''eSws'' else ''biws''))
                   (\<lambda>channelBinding.
                 let clientFinalMessageWithoutProof = ''c='' @ channelBinding @ '',r='' @ nonce sv;
                     authMessage = clientFirstMessageBare @ '','' @ serverFirstMessage @ '','' @
                                   clientFinalMessageWithoutProof;
                     saltBytes = base64_decode cr (salt sv)
                 in
                 bind_result (deriveKey cr pw saltBytes (iteration sv)) (\<lambda>saltedPassword.
                 bind_result (hmacSha256 cr saltedPassword ''Client Key'') (\<lambda>clientKey.
                 bind_result (sha256 cr clientKey) (\<lambda>storedKey.
                 bind_result (hmacSha256 cr storedKey authMessage) (\<lambda>clientSignature.
                 bind_result (xorBuffers (Buffer clientKey) (Buffer clientSignature)) (\<lambda>proofBytes.
                 let clientProof = base64_encode cr proofBytes in
                 bind_result (hmacSha256 cr saltedPassword ''Server Key'') (\<lambda>serverKey.
                 bind_result (hmacSha256 cr serverKey authMessage) (\<lambda>serverSignatureBytes.
                   Inr (sess\<lparr>message := ''SASLResponse'',
                             serverSignature := Some (base64_encode cr serverSignatureBytes),
                             response := clientFinalMessageWithoutProof @ '',p='' @ clientProof\<rparr>))))))))))
         | _ \<Rightarrow> Inl (Error ''SASL: SCRAM-SERVER-FIRST-MESSAGE: serverData must be a string''))
     | _ \<Rightarrow> Inl (Error ''SASL: SCRAM-SERVER-FIRST-MESSAGE: client password must be a string''))"

definition finalizeSession :: "session \<Rightarrow> jsval \<Rightarrow> jserror + unit" where
  "finalizeSession sess serverData =
    (if message sess \<noteq> ''SASLResponse''
     then Inl (Error ''SASL: Last message was not SASLResponse'')
     else case serverData of
       JStr sd \<Rightarrow>
         bind_result (parseServerFinalMessage (JStr sd)) (\<lambda>sig.
           if Some sig \<noteq> serverSignature sess
           then Inl (Error ''SASL: SCRAM-SERVER-FINAL-MESSAGE: server signature does not match'')
           else Inr ())
     | _ \<Rightarrow> Inl (Error ''SASL: SCRAM-SERVER-FINAL-MESSAGE: serverData must be a string''))"


text \<open>\<open>typeof v === 'string'\<close>\<close>

fun is_string :: "jsval \<Rightarrow> bool" where
  "is_string (JStr s) = True"
| "is_string v = False"

section \<open>The client (lib/client.js)\<close>

subsection \<open>Query objects, callbacks and observable effects\<close>

text \<open>
  Query objects are shared and mutable (the queue, the active slot and the timer closures
  all hold the same object), so they live in a store, addressed by a reference:
  \<open>Given n\<close> for an object the caller built and passed in, \<open>Made n\<close> for one the
  client built with \<open>new Query(...)\<close>.

  A function value that can sit in \<open>query.callback\<close>: a function of the caller
  (\<open>UserFn\<close>; it is opaque, assumed to return normally and not to call back into the
  client), the settle function of a promise the client made (\<open>Settle\<close>), the
  \<open>() => {}\<close> of the read timeout (\<open>Noop\<close>), and the wrapper
  \<open>(err, res) => { clearTimeout(readTimeoutTimer); queryCallback(err, res) }\<close>
  (\<open>ClearThen readTimeoutTimer queryCallback\<close>, where the captured \<open>queryCallback\<close>
  may be \<open>undefined\<close>).
\<close>

datatype qref = Given nat | Made nat

datatype callback = UserFn nat | Settle nat | Noop | ClearThen nat "callback option"

text \<open>
  \<open>./query\<close> is not part of the sources at hand. Of a query object the client reads
  and writes the fields below; \<open>submit\<close> is what \<open>query.submit(connection)\<close> returns
  (a preflight error, or nothing), \<open>q_query_timeout\<close> is the object's
  \<open>query_timeout\<close> property (0 for a falsy one) and \<open>q_result\<close> is \<open>None\<close> without a
  \<open>_result\<close>, else whether \<open>_result._types\<close> is set.
\<close>

record query_obj =
  callback :: "callback option"
  q_binary :: bool
  q_name :: "string option"
  q_text :: string
  q_query_timeout :: nat
  q_result :: "bool option"
  submit :: "jserror option"

datatype qmethod =
    Submit
  | HandleError jserror
  | HandleReadyForQuery
  | HandleRowDescription string
  | HandleDataRow string
  | HandlePortalSuspended
  | HandleEmptyQuery
  | HandleCommandComplete string
  | HandleCopyInResponse
  | HandleCopyData string

datatype emitted =
    EmConnect | EmEnd | EmDrain | EmError jserror | EmNotice string | EmNotification string

datatype conaction =
    ConnectPath string
  | ConnectTcp nat string
  | RequestSsl
  | Startup "(string \<times> jsval) list"
  | PasswordMessage jsval
  | SASLInitialResponseMessage string string
  | SCRAMClientFinalMessage string
  | ConnectionEnd
  | StreamDestroy "jserror option"
  | CancelRequest
  | ConnectionRef
  | ConnectionUnref

text \<open>
  What the client does to the outside, in order: a call of a caller's function or the
  settling of a promise, a method call on a query object, an event emitted on the client,
  a call on the connection or its stream, an exception that leaves the running handler.
\<close>

datatype effect =
    Called callback "jserror option"
  | QueryMethod qref qmethod
  | Emit emitted
  | Con conaction
  | Uncaught jserror

text \<open>The closures handed to \<open>process.nextTick\<close> and to \<open>setTimeout\<close>.\<close>

datatype task =
    TaskHandleError qref jserror
  | TaskSubmitError qref jserror
  | TaskEmitEnd
  | TaskCall callback jserror

datatype timer = ReadTimeout qref "callback option" | ConnectTimeout

text \<open>The password as configured: a producer function, or a value (\<open>null\<close> included).\<close>

datatype password = PwFunction | PwValue jsval

text \<open>What \<open>_getPassword\<close> waits for, and the callback it then runs.\<close>

datatype pw_source = FromFunction | FromPgpass

datatype auth_cont = ContCleartext | ContMD5 "byte list" | ContSASL "string list" string

datatype end_listener = ClientEnd | Waiter callback

subsection \<open>Connection parameters and the client's state\<close>

text \<open>
  \<open>./connection-parameters\<close> is not part of the sources at hand: the record holds the
  resolved values the client reads. \<open>host\<close> is \<open>[]\<close> for a falsy host,
  \<open>query_timeout\<close> is 0 for a falsy one.
\<close>

record params =
  user :: jsval
  database :: jsval
  port :: nat
  host :: string
  password :: password
  replication :: jsval
  application_name :: jsval
  fallback_application_name :: jsval
  statement_timeout :: jsval
  lock_timeout :: jsval
  idle_in_transaction_session_timeout :: jsval
  options :: jsval
  ssl :: bool
  query_timeout :: nat

text \<open>
  The fields of the client (a leading underscore of the source is dropped), then the
  parts of its surroundings that its methods read and write: of the connection
  (\<open>./connection\<close>, not part of the sources at hand) its \<open>_connecting\<close> and
  \<open>_ending\<close> flags, its stream, its \<open>parsedStatements\<close> and its listeners; the store
  of query objects; the pending \<open>process.nextTick\<close> closures, oldest first; the armed
  timers; and the effects so far.
\<close>

record client =
  connectionParameters :: params
  client_user :: jsval
  client_host :: string
  client_port :: nat
  client_password :: password
  client_ssl :: bool
  ending :: bool
  ended :: bool
  connecting :: bool
  connected :: bool
  connectionError :: bool
  queryable :: bool
  activeQuery :: "qref option"
  queryQueue :: "qref list"
  readyForQuery :: bool
  hasExecuted :: bool
  enableChannelBinding :: bool
  binary :: bool
  processID :: "int option"
  secretKey :: "int option"
  connectionTimeoutMillis :: nat
  connectionTimeoutHandle :: "nat option"
  connectionCallback :: "callback option"
  saslSession :: "session option"
  con_connecting :: bool
  con_ending :: bool
  con_stream :: stream
  parsedStatements :: "string \<rightharpoonup> string"
  attached :: bool
  end_listeners :: "end_listener list"
  cancel_listeners :: nat
  pending_password :: "(pw_source \<times> auth_cont) list"
  store :: "qref \<Rightarrow> query_obj"
  fresh :: nat
  ticks :: "task list"
  timers :: "nat \<rightharpoonup> timer"
  next_timer :: nat
  trace :: "effect list"

text \<open>What the constructor reads of its \<open>config\<close> besides the connection parameters.\<close>

record config =
  cfg_enableChannelBinding :: bool
  cfg_binary :: bool
  cfg_connectionTimeoutMillis :: nat
  cfg_stream :: stream

text \<open>The constructor. \<open>objs\<close> are the query objects of the caller.\<close>

definition new_client :: "params \<Rightarrow> config \<Rightarrow> (qref \<Rightarrow> query_obj) \<Rightarrow> client" where
  "new_client ps cfg objs =
    \<lparr>connectionParameters = ps,
     client_user = user ps, client_host = host ps, client_port = port ps,
     client_password = password ps, client_ssl = ssl ps,
     ending = False, ended = False, connecting = False, connected = False,
     connectionError = False, queryable = True, activeQuery = None, queryQueue = [],
     readyForQuery = False, hasExecuted = False,
     enableChannelBinding = cfg_enableChannelBinding cfg, binary = cfg_binary cfg,
     processID = None, secretKey = None,
     connectionTimeoutMillis = cfg_connectionTimeoutMillis cfg,
     connectionTimeoutHandle = None, connectionCallback = None, saslSession = None,
     con_connecting = False, con_ending = False, con_stream = cfg_stream cfg,
     parsedStatements = Map.empty, attached = False, end_listeners = [],
     cancel_listeners = 0, pending_password = [],
     store = objs, fresh = 0, ticks = [], timers = Map.empty, next_timer = 0, trace = []\<rparr>"

subsection \<open>Primitives\<close>

definition emit :: "emitted \<Rightarrow> client \<Rightarrow> client" where
  "emit e c = c\<lparr>trace := trace c @ [Emit e]\<rparr>"

definition con_call :: "conaction \<Rightarrow> client \<Rightarrow> client" where
  "con_call a c = c\<lparr>trace := trace c @ [Con a]\<rparr>"

definition nextTick :: "task \<Rightarrow> client \<Rightarrow> client" where
  "nextTick t c = c\<lparr>ticks := ticks c @ [t]\<rparr>"

text \<open>\<open>setTimeout\<close> returns the new handle; the delay is not modelled, an armed timer
  may expire at any later moment. \<open>clearTimeout(undefined)\<close> does nothing.\<close>

definition setTimeout :: "timer \<Rightarrow> client \<Rightarrow> nat \<times> client" where
  "setTimeout tm c =
     (next_timer c, c\<lparr>timers := (timers c)(next_timer c \<mapsto> tm), next_timer := Suc (next_timer c)\<rparr>)"

definition clearTimeout :: "nat option \<Rightarrow> client \<Rightarrow> client" where
  "clearTimeout h c = (case h of None \<Rightarrow> c | Some t \<Rightarrow> c\<lparr>timers := (timers c)(t := None)\<rparr>)"

definition set_callback :: "qref \<Rightarrow> callback option \<Rightarrow> client \<Rightarrow> client" where
  "set_callback q cb c = c\<lparr>store := (store c)(q := (store c q)\<lparr>callback := cb\<rparr>)\<rparr>"

text \<open>
  Calling a function value with \<open>(err, res)\<close>; \<open>err = None\<close> is a call without an
  error. The result says whether the call returned normally: calling the wrapper whose
  captured \<open>queryCallback\<close> is \<open>undefined\<close> throws a \<open>TypeError\<close> after it has
  cleared the timer.
\<close>

fun invoke :: "callback \<Rightarrow> jserror option \<Rightarrow> client \<Rightarrow> bool \<times> client" where
  "invoke (UserFn f) err c = (True, c\<lparr>trace := trace c @ [Called (UserFn f) err]\<rparr>)"
| "invoke (Settle p) err c = (True, c\<lparr>trace := trace c @ [Called (Settle p) err]\<rparr>)"
| "invoke Noop err c = (True, c)"
| "invoke (ClearThen t None) err c =
     (False, (clearTimeout (Some t) c)
               \<lparr>trace := trace c @ [Uncaught (TypeError ''queryCallback is not a function'')]\<rparr>)"
| "invoke (ClearThen t (Some cb)) err c = invoke cb err (clearTimeout (Some t) c)"

text \<open>Go on with \<open>f\<close> unless the call before threw.\<close>

definition and_then :: "bool \<times> client \<Rightarrow> (client \<Rightarrow> client) \<Rightarrow> client" where
  "and_then r f = (if fst r then f (snd r) else snd r)"

text \<open>
  Modelled from the spec: \<open>Query.handleError\<close> and \<open>Query.handleReadyForQuery\<close>
  (\<open>./query\<close> is not under src/). The spec's contract for a query object: it has handlers
  for \<open>Error\<close> and \<open>ReadyForQuery\<close>, and the handle \<open>query()\<close> returns "completes when
  the query completes or fails". So each handler completes the query through whatever
  function \<open>query.callback\<close> holds when the handler runs: with the error, or without
  one. A query without a callback reports by its own means, which are not modelled.
\<close>

definition query_handleError :: "qref \<Rightarrow> jserror \<Rightarrow> client \<Rightarrow> bool \<times> client" where
  "query_handleError q err c =
    (let c1 = c\<lparr>trace := trace c @ [QueryMethod q (HandleError err)]\<rparr>
     in case callback (store c1 q) of
          None \<Rightarrow> (True, c1)
        | Some cb \<Rightarrow> invoke cb (Some err) c1)"

definition query_handleReadyForQuery :: "qref \<Rightarrow> client \<Rightarrow> bool \<times> client" where
  "query_handleReadyForQuery q c =
    (let c1 = c\<lparr>trace := trace c @ [QueryMethod q HandleReadyForQuery]\<rparr>
     in case callback (store c1 q) of
          None \<Rightarrow> (True, c1)
        | Some cb \<Rightarrow> invoke cb None c1)"

text \<open>The other handlers of a query object are calls whose effects stay inside the
  object and the connection.\<close>

definition query_call :: "qref \<Rightarrow> qmethod \<Rightarrow> client \<Rightarrow> client" where
  "query_call q m c = c\<lparr>trace := trace c @ [QueryMethod q m]\<rparr>"

text \<open>\<open>this._getActiveQuery().handleX(...)\<close>: a \<open>TypeError\<close> without an active query.\<close>

definition delegate :: "qmethod \<Rightarrow> client \<Rightarrow> client" where
  "delegate m c =
    (case activeQuery c of
       None \<Rightarrow> c\<lparr>trace := trace c @ [Uncaught (TypeError ''Cannot read properties of null'')]\<rparr>
     | Some q \<Rightarrow> query_call q m c)"

subsection \<open>getStartupConf\<close>

text \<open>
  \<open>parseInt(v, 10)\<close>: the string of \<open>v\<close>, leading white space dropped, an optional
  sign, then the longest run of decimal digits; \<open>None\<close> is \<open>NaN\<close>. The white space
  characters are those among the code units modelled.
\<close>

definition js_whitespace :: "char \<Rightarrow> bool" where
  "js_whitespace c = (of_char c \<in> {9, 10, 11, 12, 13, 32, 160 :: nat})"

definition parseInt10 :: "jsval \<Rightarrow> int option" where
  "parseInt10 v =
    (let s = dropWhile js_whitespace (to_string v);
         neg = (s \<noteq> [] \<and> hd s = CHR ''-'');
         s' = (if s \<noteq> [] \<and> (hd s = CHR ''-'' \<or> hd s = CHR ''+'') then tl s else s);
         ds = takeWhile is_digit s'
     in if ds = [] then None
        else Some (if neg then - int (digits_val ds) else int (digits_val ds)))"

text \<open>\<open>String(n)\<close> for the result of \<open>parseInt\<close>.\<close>

definition number_string :: "int option \<Rightarrow> string" where
  "number_string n = (case n of None \<Rightarrow> ''NaN'' | Some i \<Rightarrow> show_int i)"

text \<open>The object returned, as its properties in insertion order.\<close>

definition getStartupConf :: "params \<Rightarrow> (string \<times> jsval) list" where
  "getStartupConf ps =
    (let data0 = [(''user'', user ps), (''database'', database ps)];
         appName = js_or (application_name ps) (fallback_application_name ps);
         data1 = (if truthy appName then data0 @ [(''application_name'', appName)] else data0);
         data2 = (if truthy (replication ps)
                  then data1 @ [(''replication'', JStr ([] @ to_string (replication ps)))]
                  else data1);
         data3 = (if truthy (statement_timeout ps)
                  then data2 @ [(''statement_timeout'',
                                 JStr (number_string (parseInt10 (statement_timeout ps))))]
                  else data2);
         data4 = (if truthy (lock_timeout ps)
                  then data3 @ [(''lock_timeout'', JStr (number_string (parseInt10 (lock_timeout ps))))]
                  else data3);
         data5 = (if truthy (idle_in_transaction_session_timeout ps)
                  then data4 @ [(''idle_in_transaction_session_timeout'',
                                 JStr (number_string (parseInt10 (idle_in_transaction_session_timeout ps))))]
                  else data4)
     in if truthy (options ps) then data5 @ [(''options'', options ps)] else data5)"

subsection \<open>The query queue\<close>

text \<open>\<open>_errorAllQueries\<close>: one \<open>process.nextTick\<close> closure for the active query, then
  one for each queued query, in queue order.\<close>

definition errorAllQueries :: "jserror \<Rightarrow> client \<Rightarrow> client" where
  "errorAllQueries err c =
    (let c1 = (case activeQuery c of
                 Some q \<Rightarrow> (nextTick (TaskHandleError q err) c)\<lparr>activeQuery := None\<rparr>
               | None \<Rightarrow> c)
     in c1\<lparr>ticks := ticks c1 @ map (\<lambda>q. TaskHandleError q err) (queryQueue c1),
           queryQueue := []\<rparr>)"

text \<open>\<open>_pulseQueryQueue\<close>. \<open>shift()\<close> on an empty queue gives \<open>undefined\<close>.\<close>

definition pulseQueryQueue :: "client \<Rightarrow> client" where
  "pulseQueryQueue c =
    (if readyForQuery c then
       (case queryQueue c of
          [] \<Rightarrow>
            let c1 = c\<lparr>activeQuery := None\<rparr>
            in if hasExecuted c1 then emit EmDrain (c1\<lparr>activeQuery := None\<rparr>) else c1
        | q # rest \<Rightarrow>
            let c1 = c\<lparr>activeQuery := Some q, queryQueue := rest\<rparr>;
                c2 = c1\<lparr>readyForQuery := False, hasExecuted := True\<rparr>;
                c3 = query_call q Submit c2
            in (case submit (store c3 q) of
                  None \<Rightarrow> c3
                | Some queryError \<Rightarrow> nextTick (TaskSubmitError q queryError) c3))
     else c)"

text \<open>Running a closure of \<open>process.nextTick\<close>.\<close>

fun run_task :: "task \<Rightarrow> client \<Rightarrow> client" where
  "run_task (TaskHandleError q err) c = snd (query_handleError q err c)"
| "run_task (TaskSubmitError q err) c =
     and_then (query_handleError q err c) (\<lambda>c1. pulseQueryQueue (c1\<lparr>readyForQuery := True\<rparr>))"
| "run_task TaskEmitEnd c = emit EmEnd c"
| "run_task (TaskCall cb err) c = snd (invoke cb (Some err) c)"

subsection \<open>Errors\<close>

definition handleErrorWhileConnecting :: "jserror \<Rightarrow> client \<Rightarrow> client" where
  "handleErrorWhileConnecting err c =
    (if connectionError c then c
     else
       let c1 = clearTimeout (connectionTimeoutHandle c) (c\<lparr>connectionError := True\<rparr>)
       in case connectionCallback c1 of
            Some cb \<Rightarrow> snd (invoke cb (Some err) c1)
          | None \<Rightarrow> emit (EmError err) c1)"

definition handleErrorEvent :: "jserror \<Rightarrow> client \<Rightarrow> client" where
  "handleErrorEvent err c =
    (if connecting c then handleErrorWhileConnecting err c
     else emit (EmError err) (errorAllQueries err (c\<lparr>queryable := False\<rparr>)))"

definition handleErrorMessage :: "jserror \<Rightarrow> client \<Rightarrow> client" where
  "handleErrorMessage msg c =
    (if connecting c then handleErrorWhileConnecting msg c
     else case activeQuery c of
            None \<Rightarrow> handleErrorEvent msg c
          | Some q \<Rightarrow> snd (query_handleError q msg (c\<lparr>activeQuery := None\<rparr>)))"

text \<open>\<open>connection.emit('error', err)\<close>: the listener of the connection's \<open>error\<close> event
  is \<open>_handleErrorEvent\<close>, once \<open>_attachListeners\<close> has run.\<close>

definition con_emit_error :: "jserror \<Rightarrow> client \<Rightarrow> client" where
  "con_emit_error err c = (if attached c then handleErrorEvent err c else c)"

subsection \<open>Connecting\<close>

text \<open>
  \<open>con.connect(...)\<close>, to the Unix socket when the host starts with \<open>/\<close>.
  Modelled from the spec: \<open>Connection.connect\<close> (\<open>./connection\<close> is not under src/) marks
  the connection as connecting, the flag \<open>connection._connecting\<close> that \<open>end()\<close>
  reads for "never connected".
\<close>

definition con_connect :: "client \<Rightarrow> client" where
  "con_connect c =
    (con_call
       (if client_host c \<noteq> [] \<and> hd (client_host c) = CHR ''/''
        then ConnectPath (client_host c @ ''/.s.PGSQL.'' @ show_nat (client_port c))
        else ConnectTcp (client_port c) (client_host c)) c)
    \<lparr>con_connecting := True\<rparr>"

text \<open>\<open>_connect(callback)\<close>\<close>

definition connect_internal :: "callback \<Rightarrow> client \<Rightarrow> client" where
  "connect_internal cb c =
    (let c0 = c\<lparr>connectionCallback := Some cb\<rparr> in
     if connecting c0 \<or> connected c0
     then nextTick (TaskCall cb (Error ''Client has already been connected. You cannot reuse a client.'')) c0
     else
       let c1 = c0\<lparr>connecting := True\<rparr>;
           c2 = (if connectionTimeoutMillis c1 > 0
                 then (let (t, c') = setTimeout ConnectTimeout c1
                       in c'\<lparr>connectionTimeoutHandle := Some t\<rparr>)
                 else c1);
           c3 = con_connect c2
       in c3\<lparr>attached := True, end_listeners := end_listeners c3 @ [ClientEnd]\<rparr>)"

text \<open>\<open>connect(callback)\<close>: with a callback (\<open>Some f\<close>, the caller's function \<open>f\<close>) it
  returns nothing, without one it returns a new promise.\<close>

definition connect :: "nat option \<Rightarrow> client \<Rightarrow> nat option \<times> client" where
  "connect cb c =
    (case cb of
       Some f \<Rightarrow> (None, connect_internal (UserFn f) c)
     | None \<Rightarrow> (Some (fresh c), connect_internal (Settle (fresh c)) (c\<lparr>fresh := Suc (fresh c)\<rparr>)))"

text \<open>The connection's \<open>connect\<close> and \<open>sslconnect\<close> events; a \<open>connect\<close> listener of
  \<open>cancel\<close> sends the cancel request of its target.\<close>

definition on_connect :: "client \<Rightarrow> client" where
  "on_connect c =
    (let c1 = (if attached c
               then (if client_ssl c then con_call RequestSsl c
                     else con_call (Startup (getStartupConf (connectionParameters c))) c)
               else c)
     in c1\<lparr>trace := trace c1 @ replicate (cancel_listeners c1) (Con CancelRequest)\<rparr>)"

definition on_sslconnect :: "client \<Rightarrow> client" where
  "on_sslconnect c = con_call (Startup (getStartupConf (connectionParameters c))) c"

text \<open>The closure of the connect deadline.\<close>

definition connect_timeout_expired :: "client \<Rightarrow> client" where
  "connect_timeout_expired c =
     con_call (StreamDestroy (Some (Error ''timeout expired''))) (c\<lparr>con_ending := True\<rparr>)"

text \<open>The listener \<open>_connect\<close> registers once for the connection's \<open>end\<close> event.\<close>

definition on_end :: "client \<Rightarrow> client" where
  "on_end c =
    (let error = (if ending c then Error ''Connection terminated''
                  else Error ''Connection terminated unexpectedly'');
         c1 = clearTimeout (connectionTimeoutHandle c) c;
         c2 = (errorAllQueries error c1)\<lparr>ended := True\<rparr>;
         c3 = (if \<not> ending c2 then
                 (if connecting c2 \<and> \<not> connectionError c2 then
                    (case connectionCallback c2 of
                       Some cb \<Rightarrow> snd (invoke cb (Some error) c2)
                     | None \<Rightarrow> handleErrorEvent error c2)
                  else if \<not> connectionError c2 then handleErrorEvent error c2
                  else c2)
               else c2)
     in nextTick TaskEmitEnd c3)"

text \<open>The connection emits \<open>end\<close>: every listener registered with \<open>once\<close> runs, in the
  order of registration, and is gone.\<close>

fun run_end_listener :: "end_listener \<Rightarrow> client \<Rightarrow> client" where
  "run_end_listener ClientEnd c = on_end c"
| "run_end_listener (Waiter cb) c = snd (invoke cb None c)"

definition connection_end :: "client \<Rightarrow> client" where
  "connection_end c = foldl (\<lambda>c' l. run_end_listener l c') (c\<lparr>end_listeners := []\<rparr>) (end_listeners c)"

subsection \<open>Authentication\<close>

text \<open>\<open>this.enableChannelBinding && this.connection.stream\<close>\<close>

definition binding_stream :: "client \<Rightarrow> stream option" where
  "binding_stream c = (if enableChannelBinding c then Some (con_stream c) else None)"

text \<open>The password as a value where one is used: a producer function that was never
  replaced is no string.\<close>

definition password_value :: "client \<Rightarrow> jsval" where
  "password_value c = (case client_password c of PwValue v \<Rightarrow> v | PwFunction \<Rightarrow> JUndefined)"

text \<open>
  The callbacks given to \<open>_getPassword\<close>. The \<open>await\<close>ed hash of the MD5 handler and
  the \<open>await\<close>ed \<open>continueSession\<close> are taken in one step with what follows them.
\<close>

fun auth_continue :: "crypto \<Rightarrow> auth_cont \<Rightarrow> client \<Rightarrow> client" where
  "auth_continue cr ContCleartext c = con_call (PasswordMessage (password_value c)) c"
| "auth_continue cr (ContMD5 md5salt) c =
     (case postgresMd5PasswordHash cr (client_user c) (password_value c) md5salt of
        Inr hashedPassword \<Rightarrow> con_call (PasswordMessage (JStr hashedPassword)) c
      | Inl e \<Rightarrow> emit (EmError e) c)"
| "auth_continue cr (ContSASL mechanisms rnd) c =
     (case startSession mechanisms (binding_stream c) rnd of
        Inr sess \<Rightarrow>
          con_call (SASLInitialResponseMessage (mechanism sess) (response sess))
            (c\<lparr>saslSession := Some sess\<rparr>)
      | Inl err \<Rightarrow> con_emit_error err c)"

text \<open>\<open>_getPassword(cb)\<close>: a producer function and the lookup of the password file
  answer later; a password that is not \<open>null\<close> runs the callback at once.\<close>

definition getPassword :: "crypto \<Rightarrow> auth_cont \<Rightarrow> client \<Rightarrow> client" where
  "getPassword cr cb c =
    (case client_password c of
       PwFunction \<Rightarrow> c\<lparr>pending_password := pending_password c @ [(FromFunction, cb)]\<rparr>
     | PwValue v \<Rightarrow>
         if v \<noteq> JNull then auth_continue cr cb c
         else c\<lparr>pending_password := pending_password c @ [(FromPgpass, cb)]\<rparr>)"

definition set_password :: "password \<Rightarrow> client \<Rightarrow> client" where
  "set_password p c =
     c\<lparr>client_password := p, connectionParameters := (connectionParameters c)\<lparr>password := p\<rparr>\<rparr>"

text \<open>The producer's promise is settled: with a value (\<open>Inr\<close>) or a rejection.\<close>

definition password_produced :: "crypto \<Rightarrow> auth_cont \<Rightarrow> jserror + jsval \<Rightarrow> client \<Rightarrow> client" where
  "password_produced cr cb r c =
    (case r of
       Inl err \<Rightarrow> con_emit_error err c
     | Inr pass \<Rightarrow>
         if pass \<noteq> JUndefined then
           (if \<not> is_string pass then con_emit_error (TypeError ''Password must be a string'') c
            else auth_continue cr cb (set_password (PwValue pass) c))
         else auth_continue cr cb (set_password (PwValue JNull) c))"

text \<open>The password file lookup calls back, with a password or \<open>undefined\<close>.\<close>

definition pgpass_answered :: "crypto \<Rightarrow> auth_cont \<Rightarrow> jsval \<Rightarrow> client \<Rightarrow> client" where
  "pgpass_answered cr cb pass c =
    auth_continue cr cb (if pass \<noteq> JUndefined then set_password (PwValue pass) c else c)"

definition handleAuthSASLContinue :: "crypto \<Rightarrow> string \<Rightarrow> client \<Rightarrow> client" where
  "handleAuthSASLContinue cr data c =
    (case saslSession c of
       None \<Rightarrow> con_emit_error (TypeError ''Cannot read properties of undefined'') c
     | Some sess \<Rightarrow>
         (case continueSession cr sess (password_value c) (JStr data) (binding_stream c) of
            Inr sess' \<Rightarrow>
              con_call (SCRAMClientFinalMessage (response sess')) (c\<lparr>saslSession := Some sess'\<rparr>)
          | Inl err \<Rightarrow> con_emit_error err c))"

definition handleAuthSASLFinal :: "string \<Rightarrow> client \<Rightarrow> client" where
  "handleAuthSASLFinal data c =
    (case saslSession c of
       None \<Rightarrow> con_emit_error (TypeError ''Cannot read properties of undefined'') c
     | Some sess \<Rightarrow>
         (case finalizeSession sess (JStr data) of
            Inr u \<Rightarrow> c\<lparr>saslSession := None\<rparr>
          | Inl err \<Rightarrow> con_emit_error err c))"

subsection \<open>Backend messages\<close>

definition handleBackendKeyData :: "int \<Rightarrow> int \<Rightarrow> client \<Rightarrow> client" where
  "handleBackendKeyData pid key c = c\<lparr>processID := Some pid, secretKey := Some key\<rparr>"

definition handleReadyForQuery :: "client \<Rightarrow> client" where
  "handleReadyForQuery c =
    (let c1 = (if connecting c then
                 let c' = clearTimeout (connectionTimeoutHandle c)
                            (c\<lparr>connecting := False, connected := True\<rparr>);
                     c'' = (case connectionCallback c' of
                              Some cb \<Rightarrow> (snd (invoke cb None c'))\<lparr>connectionCallback := None\<rparr>
                            | None \<Rightarrow> c')
                 in emit EmConnect c''
               else c);
         active = activeQuery c1;
         c2 = c1\<lparr>activeQuery := None, readyForQuery := True\<rparr>
     in case active of
          None \<Rightarrow> pulseQueryQueue c2
        | Some q \<Rightarrow> and_then (query_handleReadyForQuery q c2) pulseQueryQueue)"

definition handleCommandComplete :: "string \<Rightarrow> client \<Rightarrow> client" where
  "handleCommandComplete msg c =
    (case activeQuery c of
       None \<Rightarrow> handleErrorEvent (Error ''Received unexpected commandComplete message from backend.'') c
     | Some q \<Rightarrow> query_call q (HandleCommandComplete msg) c)"

text \<open>\<open>activeQuery.name\<close> counts when it is a non-empty string.\<close>

definition handleParseComplete :: "client \<Rightarrow> client" where
  "handleParseComplete c =
    (case activeQuery c of
       None \<Rightarrow> handleErrorEvent (Error ''Received unexpected parseComplete message from backend.'') c
     | Some q \<Rightarrow>
         (case q_name (store c q) of
            None \<Rightarrow> c
          | Some name \<Rightarrow>
              if name \<noteq> [] then c\<lparr>parsedStatements := (parsedStatements c)(name \<mapsto> q_text (store c q))\<rparr>
              else c))"

subsection \<open>query\<close>

text \<open>
  The first argument of \<open>query\<close>: \<open>null\<close> or \<open>undefined\<close>; an object with a
  \<open>submit\<close> function, already in the store, together with \<open>values\<close> when that is a
  function; or anything else, from which \<open>new Query(config, values, callback)\<close> builds
  the object given here (the constructor is not part of the sources at hand), together
  with \<open>config.query_timeout\<close> (0 for a falsy one).
\<close>

datatype query_arg = NullArg | Submittable qref "callback option" | Config nat query_obj

datatype query_result = ResultQuery qref | ResultPromise nat | ResultUndefined

text \<open>The query object, the value to return and \<open>readTimeout\<close>.\<close>

fun query_setup :: "query_arg \<Rightarrow> client \<Rightarrow> jserror + (qref \<times> query_result \<times> nat \<times> client)" where
  "query_setup NullArg c = Inl (TypeError ''Client was passed a null or undefined query'')"
| "query_setup (Submittable q vals) c =
     (let readTimeout = (if q_query_timeout (store c q) \<noteq> 0 then q_query_timeout (store c q)
                         else query_timeout (connectionParameters c));
          c1 = (case vals of
                  Some f \<Rightarrow>
                    (case callback (store c q) of
                       Some cb \<Rightarrow> c
                     | None \<Rightarrow> set_callback q (Some f) c)
                | None \<Rightarrow> c)
      in Inr (q, ResultQuery q, readTimeout, c1))"
| "query_setup (Config cfg_timeout obj) c =
     (let readTimeout = (if cfg_timeout \<noteq> 0 then cfg_timeout
                         else query_timeout (connectionParameters c));
          q = Made (fresh c);
          c1 = c\<lparr>store := (store c)(q := obj), fresh := Suc (fresh c)\<rparr>
      in case callback obj of
           None \<Rightarrow> Inr (q, ResultPromise (fresh c), readTimeout, set_callback q (Some (Settle (fresh c))) c1)
         | Some cb \<Rightarrow> Inr (q, ResultUndefined, readTimeout, c1))"

text \<open>Arming the read timeout and wrapping the callback.\<close>

definition arm_read_timeout :: "qref \<Rightarrow> client \<Rightarrow> client" where
  "arm_read_timeout q c =
    (let queryCallback = callback (store c q);
         (readTimeoutTimer, c1) = setTimeout (ReadTimeout q queryCallback) c
     in set_callback q (Some (ClearThen readTimeoutTimer queryCallback)) c1)"

text \<open>The client's \<open>binary\<close> flag and type parsers, passed on to a query that has
  none of its own.\<close>

definition inherit_settings :: "qref \<Rightarrow> client \<Rightarrow> client" where
  "inherit_settings q c =
    (let c1 = (if binary c \<and> \<not> q_binary (store c q)
               then c\<lparr>store := (store c)(q := (store c q)\<lparr>q_binary := True\<rparr>)\<rparr>
               else c)
     in if q_result (store c1 q) = Some False
        then c1\<lparr>store := (store c1)(q := (store c1 q)\<lparr>q_result := Some True\<rparr>)\<rparr>
        else c1)"

definition query :: "query_arg \<Rightarrow> client \<Rightarrow> jserror + (query_result \<times> client)" where
  "query config c =
    bind_result (query_setup config c) (\<lambda>(q, result, readTimeout, c0).
      let c1 = (if readTimeout \<noteq> 0 then arm_read_timeout q c0 else c0);
          c2 = inherit_settings q c1
      in if \<not> queryable c2
         then Inr (result,
                   nextTick (TaskHandleError q
                     (Error ''Client has encountered a connection error and is not queryable'')) c2)
         else if ending c2
         then Inr (result,
                   nextTick (TaskHandleError q (Error ''Client was closed and is not queryable'')) c2)
         else Inr (result, pulseQueryQueue (c2\<lparr>queryQueue := queryQueue c2 @ [q]\<rparr>)))"

text \<open>The closure of the read timeout of \<open>query\<close>, with the \<open>query\<close> and the
  \<open>queryCallback\<close> it captured. Calling an \<open>undefined\<close> \<open>queryCallback\<close> throws, and
  the rest of the closure does not run.\<close>

definition read_timeout_expired :: "qref \<Rightarrow> callback option \<Rightarrow> client \<Rightarrow> client" where
  "read_timeout_expired q queryCallback c =
    (let error = Error ''Query read timeout'';
         c1 = nextTick (TaskHandleError q error) c
     in case queryCallback of
          None \<Rightarrow> c1\<lparr>trace := trace c1 @ [Uncaught (TypeError ''queryCallback is not a function'')]\<rparr>
        | Some cb \<Rightarrow>
            and_then (invoke cb (Some error) c1) (\<lambda>c2.
              let c3 = set_callback q (Some Noop) c2;
                  c4 = c3\<lparr>queryQueue := remove1 q (queryQueue c3)\<rparr>
              in pulseQueryQueue c4))"

fun timer_expired :: "timer \<Rightarrow> client \<Rightarrow> client" where
  "timer_expired (ReadTimeout q queryCallback) c = read_timeout_expired q queryCallback c"
| "timer_expired ConnectTimeout c = connect_timeout_expired c"

subsection \<open>end and cancel\<close>

text \<open>What \<open>end\<close> returns: nothing, \<open>Promise.resolve()\<close>, or a new promise.\<close>

datatype end_result = EndUndefined | EndResolved | EndPromise nat

text \<open>\<open>end(cb)\<close>, with \<open>Some f\<close> for the caller's function \<open>f\<close>. After \<open>cb()\<close> in the
  first \<open>if\<close> there is no \<open>return\<close>: control goes on to the second \<open>if\<close>.\<close>

definition client_end :: "nat option \<Rightarrow> client \<Rightarrow> end_result \<times> client" where
  "client_end cb c =
    (let c1 = c\<lparr>ending := True\<rparr>;
         noop = (\<not> con_connecting c1 \<or> ended c1)
     in if noop \<and> cb = None then (EndResolved, c1)
        else
          let c2 = (case cb of
                      Some f \<Rightarrow> if noop then snd (invoke (UserFn f) None c1) else c1
                    | None \<Rightarrow> c1);
              c3 = (if activeQuery c2 \<noteq> None \<or> \<not> queryable c2
                    then con_call (StreamDestroy None) c2
                    else con_call ConnectionEnd c2)
          in case cb of
               Some f \<Rightarrow>
                 (EndUndefined, c3\<lparr>end_listeners := end_listeners c3 @ [Waiter (UserFn f)]\<rparr>)
             | None \<Rightarrow>
                 (EndPromise (fresh c3),
                  c3\<lparr>end_listeners := end_listeners c3 @ [Waiter (Settle (fresh c3))],
                     fresh := Suc (fresh c3)\<rparr>))"

text \<open>\<open>this.cancel(client, query)\<close> works on two clients: what it does to \<open>this\<close>, given
  whether \<open>query\<close> is the active query of \<open>client\<close>, and what it does to \<open>client\<close>.\<close>

definition cancel_this :: "bool \<Rightarrow> client \<Rightarrow> client" where
  "cancel_this is_active c =
     (if is_active then (con_connect c)\<lparr>cancel_listeners := Suc (cancel_listeners c)\<rparr> else c)"

definition cancel_target :: "qref \<Rightarrow> client \<Rightarrow> client" where
  "cancel_target q t =
     (if activeQuery t = Some q then t
      else if q \<in> set (queryQueue t) then t\<lparr>queryQueue := remove1 q (queryQueue t)\<rparr>
      else t)"

definition cancel :: "client \<Rightarrow> client \<Rightarrow> qref \<Rightarrow> client \<times> client" where
  "cancel this target q = (cancel_this (activeQuery target = Some q) this, cancel_target q target)"

subsection \<open>The client as a transition system\<close>

text \<open>
  Everything that can happen to a client: a call of its interface, a
  \<open>process.nextTick\<close> closure or a timer running, an answer for \<open>_getPassword\<close>
  (the \<open>n\<close>th pending one), an event of the connection. A step runs one of them to its
  end. Events of the connection reach the client once \<open>_attachListeners\<close> has run.
  Any order of events is allowed, the orders of the platform among them.
\<close>

datatype event =
    CallConnect "nat option"
  | CallQuery query_arg
  | CallEnd "nat option"
  | CallCancel bool
  | CancelledBy qref
  | CallRef
  | CallUnref
  | Tick
  | TimerExpires nat
  | PasswordProduced nat "jserror + jsval"
  | PgpassAnswered nat jsval
  | ConConnect
  | ConSslConnect
  | ConEnd
  | ConError jserror
  | AuthenticationCleartextPassword
  | AuthenticationMD5Password "byte list"
  | AuthenticationSASL "string list" string
  | AuthenticationSASLContinue string
  | AuthenticationSASLFinal string
  | BackendKeyData int int
  | ReadyForQuery
  | ErrorMessage jserror
  | Notice string
  | Notification string
  | RowDescription string
  | DataRow string
  | PortalSuspended
  | EmptyQuery
  | CommandComplete string
  | ParseComplete
  | CopyInResponse
  | CopyData string

definition remove_nth :: "nat \<Rightarrow> 'a list \<Rightarrow> 'a list" where
  "remove_nth n xs = take n xs @ drop (Suc n) xs"

text \<open>An event of the connection that one of the listeners of \<open>_attachListeners\<close> and
  \<open>_connect\<close> handles.\<close>

fun listener :: "crypto \<Rightarrow> event \<Rightarrow> client \<Rightarrow> client" where
  "listener cr ConSslConnect c = on_sslconnect c"
| "listener cr (ConError err) c = handleErrorEvent err c"
| "listener cr AuthenticationCleartextPassword c = getPassword cr ContCleartext c"
| "listener cr (AuthenticationMD5Password md5salt) c = getPassword cr (ContMD5 md5salt) c"
| "listener cr (AuthenticationSASL mechanisms rnd) c = getPassword cr (ContSASL mechanisms rnd) c"
| "listener cr (AuthenticationSASLContinue data) c = handleAuthSASLContinue cr data c"
| "listener cr (AuthenticationSASLFinal data) c = handleAuthSASLFinal data c"
| "listener cr (BackendKeyData pid key) c = handleBackendKeyData pid key c"
| "listener cr ReadyForQuery c = handleReadyForQuery c"
| "listener cr (ErrorMessage msg) c = handleErrorMessage msg c"
| "listener cr (Notice msg) c = emit (EmNotice msg) c"
| "listener cr (Notification msg) c = emit (EmNotification msg) c"
| "listener cr (RowDescription msg) c = delegate (HandleRowDescription msg) c"
| "listener cr (DataRow msg) c = delegate (HandleDataRow msg) c"
| "listener cr PortalSuspended c = delegate HandlePortalSuspended c"
| "listener cr EmptyQuery c = delegate HandleEmptyQuery c"
| "listener cr (CommandComplete msg) c = handleCommandComplete msg c"
| "listener cr ParseComplete c = handleParseComplete c"
| "listener cr CopyInResponse c = delegate HandleCopyInResponse c"
| "listener cr (CopyData msg) c = delegate (HandleCopyData msg) c"
| "listener cr ev c = c"

fun step :: "crypto \<Rightarrow> event \<Rightarrow> client \<Rightarrow> client" where
  "step cr (CallConnect cb) c = snd (connect cb c)"
| "step cr (CallQuery config) c = (case query config c of Inl e \<Rightarrow> c | Inr (r, c') \<Rightarrow> c')"
| "step cr (CallEnd cb) c = snd (client_end cb c)"
| "step cr (CallCancel is_active) c = cancel_this is_active c"
| "step cr (CancelledBy q) c = cancel_target q c"
| "step cr CallRef c = con_call ConnectionRef c"
| "step cr CallUnref c = con_call ConnectionUnref c"
| "step cr Tick c =
     (case ticks c of [] \<Rightarrow> c | t # ts \<Rightarrow> run_task t (c\<lparr>ticks := ts\<rparr>))"
| "step cr (TimerExpires t) c =
     (case timers c t of
        None \<Rightarrow> c
      | Some tm \<Rightarrow> timer_expired tm (c\<lparr>timers := (timers c)(t := None)\<rparr>))"
| "step cr (PasswordProduced n r) c =
     (if n < length (pending_password c) \<and> fst (pending_password c ! n) = FromFunction
      then password_produced cr (snd (pending_password c ! n)) r
             (c\<lparr>pending_password := remove_nth n (pending_password c)\<rparr>)
      else c)"
| "step cr (PgpassAnswered n pass) c =
     (if n < length (pending_password c) \<and> fst (pending_password c ! n) = FromPgpass
      then pgpass_answered cr (snd (pending_password c ! n)) pass
             (c\<lparr>pending_password := remove_nth n (pending_password c)\<rparr>)
      else c)"
| "step cr ConConnect c = on_connect c"
| "step cr ConEnd c = connection_end c"
| "step cr ev c = (if attached c then listener cr ev c else c)"

text \<open>A run of events, first to last.\<close>

definition run :: "crypto \<Rightarrow> event list \<Rightarrow> client \<Rightarrow> client" where
  "run cr evs c = foldl (\<lambda>c' ev. step cr ev c') c evs"

subsection \<open>Example objects\<close>

text \<open>Concrete parameters, a query object and clients in several states, for the
  evaluations below: new; connected and idle after the first \<open>ReadyForQuery\<close>; and
  with the caller's query \<open>Given 0\<close> on the wire.\<close>

definition example_params :: params where
  "example_params =
    \<lparr>user = JStr ''alice'', database = JStr ''shop'', port = 5432, host = ''localhost'',
     password = PwValue (JStr ''pencil''), replication = JUndefined,
     application_name = JUndefined, fallback_application_name = JUndefined,
     statement_timeout = JUndefined, lock_timeout = JUndefined,
     idle_in_transaction_session_timeout = JUndefined, options = JUndefined,
     ssl = False, query_timeout = 0\<rparr>"

definition example_config :: config where
  "example_config =
    \<lparr>cfg_enableChannelBinding = False, cfg_binary = False, cfg_connectionTimeoutMillis = 0,
     cfg_stream = \<lparr>getPeerCertificate = None\<rparr>\<rparr>"

definition example_query :: query_obj where
  "example_query =
    \<lparr>callback = Some (UserFn 7), q_binary = False, q_name = None, q_text = ''SELECT 1'',
     q_query_timeout = 0, q_result = None, submit = None\<rparr>"

text \<open>The caller's object \<open>Given 1\<close> fails the preflight check of \<open>submit\<close>.\<close>

definition example_client :: client where
  "example_client =
     new_client example_params example_config
       (\<lambda>q. if q = Given 1 then example_query\<lparr>submit := Some (Error ''preflight'')\<rparr>
            else example_query)"

definition example_ready :: client where
  "example_ready = handleReadyForQuery (snd (connect (Some 0) example_client))"

definition example_executing :: client where
  "example_executing =
    (case query (Submittable (Given 0) None) example_ready of
       Inr (r, c) \<Rightarrow> c
     | Inl e \<Rightarrow> example_ready)"

text \<open>In the SCRAM exchange, after the client-first message, with the empty password.\<close>

definition example_session :: session where
  "example_session =
    \<lparr>mechanism = ''SCRAM-SHA-256'', clientNonce = ''cm5kLW5vbmNl'',
     response = ''n,,n=*,r=cm5kLW5vbmNl'', message = ''SASLInitialResponse'',
     serverSignature = None\<rparr>"

definition example_authenticating :: client where
  "example_authenticating =
    (snd (connect (Some 0) example_client))
      \<lparr>client_password := PwValue (JStr []), saslSession := Some example_session\<rparr>"

text \<open>With a query built by the client on the wire under a read timeout of 50 ms.\<close>

definition example_timed :: client where
  "example_timed =
    (case query (Config 50 example_query) example_ready of
       Inr (r, c) \<Rightarrow> c
     | Inl e \<Rightarrow> example_ready)"

text \<open>A reference is allocated when it is a caller's object or was made by this client.\<close>

fun allocated :: "qref \<Rightarrow> client \<Rightarrow> bool" where
  "allocated (Given n) c = True"
| "allocated (Made n) c = (n < fresh c)"

text \<open>The query object of a call of \<open>query\<close>.\<close>

fun query_of :: "query_arg \<Rightarrow> client \<Rightarrow> qref" where
  "query_of (Submittable q vals) c = q"
| "query_of config c = Made (fresh c)"

text \<open>
  A function value can be called when its chain of read-timeout wrappers ends in a
  function and not in \<open>undefined\<close>; \<open>innermost\<close> is the function it ends in, and
  \<open>called cb err\<close> is what the caller sees of a call \<open>cb(err)\<close>: the call of the
  caller's function or the settling of the promise at the end of the chain, nothing
  when the chain ends in \<open>() => {}\<close>.
\<close>

fun callable :: "callback \<Rightarrow> bool" where
  "callable (ClearThen t None) = False"
| "callable (ClearThen t (Some cb)) = callable cb"
| "callable cb = True"

fun innermost :: "callback \<Rightarrow> callback" where
  "innermost (ClearThen t (Some cb)) = innermost cb"
| "innermost cb = cb"

definition called :: "callback \<Rightarrow> jserror option \<Rightarrow> effect list" where
  "called cb err =
    (case innermost cb of
       UserFn f \<Rightarrow> [Called (UserFn f) err]
     | Settle p \<Rightarrow> [Called (Settle p) err]
     | other \<Rightarrow> [])"

text \<open>A query object is silenced when \<open>query.callback\<close> is \<open>() => {}\<close>, possibly
  under wrappers of later read timeouts.\<close>

definition silenced :: "qref \<Rightarrow> client \<Rightarrow> bool" where
  "silenced q c =
    (case callback (store c q) of
       None \<Rightarrow> False
     | Some cb \<Rightarrow> innermost cb = Noop)"

text \<open>
  A second caller has two more query objects, each with a \<open>query_timeout\<close> of 50 ms:
  \<open>Given 2\<close> without a callback, \<open>Given 3\<close> with one. Its client is connected
  and idle, then has \<open>Given 0\<close> on the wire. From that state: \<open>query(Given 2)\<close>;
  \<open>query(Given 3)\<close> twice with the same object; and a query from a config with a read
  timeout of 50 ms.
\<close>

definition example_objects :: "qref \<Rightarrow> query_obj" where
  "example_objects q =
    (if q = Given 2 then example_query\<lparr>callback := None, q_query_timeout := 50\<rparr>
     else if q = Given 3 then example_query\<lparr>q_query_timeout := 50\<rparr>
     else example_query)"

definition example_idle :: client where
  "example_idle =
    handleReadyForQuery
      (snd (connect (Some 0) (new_client example_params example_config example_objects)))"

definition example_busy :: client where
  "example_busy =
    (case query (Submittable (Given 0) None) example_idle of
       Inr (r, c) \<Rightarrow> c
     | Inl e \<Rightarrow> example_idle)"

definition example_no_callback :: client where
  "example_no_callback =
    (case query (Submittable (Given 2) None) example_busy of
       Inr (r, c) \<Rightarrow> c
     | Inl e \<Rightarrow> example_busy)"

definition example_twice :: client where
  "example_twice =
    (case query (Submittable (Given 3) None) example_busy of
       Inr (r, c) \<Rightarrow>
         (case query (Submittable (Given 3) None) c of
            Inr (r', c') \<Rightarrow> c'
          | Inl e \<Rightarrow> c)
     | Inl e \<Rightarrow> example_busy)"

definition example_queued :: client where
  "example_queued =
    (case query (Config 50 example_query) example_busy of
       Inr (r, c) \<Rightarrow> c
     | Inl e \<Rightarrow> example_busy)"

section \<open>Properties of the SCRAM engine\<close>

text \<open>
  Claim C4, as stated, at a concrete input: a transport is supplied and the server offers
  \<open>SCRAM-SHA-256-PLUS\<close>, but the transport has no \<open>getPeerCertificate\<close> function
  (a plain socket). \<open>startSession\<close> does not select \<open>SCRAM-SHA-256-PLUS\<close>, nor does
  it fall back to the offered \<open>SCRAM-SHA-256\<close>: it throws.
\<close>

theorem startSession_plus_without_certificate:
  "startSession [''SCRAM-SHA-256-PLUS'', ''SCRAM-SHA-256''] (Some \<lparr>getPeerCertificate = None\<rparr>)
     ''c2l4dGVlbi1ieXRlcy1ybmQh'' =
   Inl (Error ''SASL: Mechanism SCRAM-SHA-256-PLUS requires a certificate'')"
  by (simp add: startSession_def)

text \<open>
  Claim C4, amended: for every server mechanism list, optional transport and nonce,
  \<open>startSession\<close> selects \<open>SCRAM-SHA-256-PLUS\<close> exactly when a transport is supplied,
  the server offered that mechanism and the transport has a \<open>getPeerCertificate\<close>
  function; when a transport is supplied and the mechanism offered but the transport has
  no such function it throws "requires a certificate"; otherwise it selects
  \<open>SCRAM-SHA-256\<close> if offered; otherwise it throws an error naming the supported
  mechanisms. The client-first message is the gs2 header, then \<open>,,n=*,r=\<close>, then the
  client nonce; the header is \<open>p=tls-server-end-point\<close> for \<open>SCRAM-SHA-256-PLUS\<close>,
  \<open>y\<close> with a transport when PLUS was not selected, and \<open>n\<close> without a transport.
\<close>

theorem startSession_selection:
  "startSession mechanisms stream n =
    (case stream of
       Some st \<Rightarrow>
         if ''SCRAM-SHA-256-PLUS'' \<in> set mechanisms then
           (if getPeerCertificate st = None
            then Inl (Error ''SASL: Mechanism SCRAM-SHA-256-PLUS requires a certificate'')
            else Inr \<lparr>mechanism = ''SCRAM-SHA-256-PLUS'', clientNonce = n,
                      response = ''p=tls-server-end-point'' @ '',,n=*,r='' @ n,
                      message = ''SASLInitialResponse'', serverSignature = None\<rparr>)
         else if ''SCRAM-SHA-256'' \<in> set mechanisms then
           Inr \<lparr>mechanism = ''SCRAM-SHA-256'', clientNonce = n,
                 response = ''y'' @ '',,n=*,r='' @ n,
                 message = ''SASLInitialResponse'', serverSignature = None\<rparr>
         else Inl (Error ''SASL: Only mechanism(s) SCRAM-SHA-256-PLUS and SCRAM-SHA-256 are supported'')
     | None \<Rightarrow>
         if ''SCRAM-SHA-256'' \<in> set mechanisms then
           Inr \<lparr>mechanism = ''SCRAM-SHA-256'', clientNonce = n,
                 response = ''n'' @ '',,n=*,r='' @ n,
                 message = ''SASLInitialResponse'', serverSignature = None\<rparr>
         else Inl (Error ''SASL: Only mechanism(s) SCRAM-SHA-256 are supported''))"
  by (cases stream) (simp_all add: startSession_def)

text \<open>
  Claim C5: \<open>continueSession\<close> throws for every server-first message whose nonce does
  not start with the client nonce or is exactly as long as the client nonce, and
  \<open>parseServerFirstMessage\<close> throws for every message whose iteration attribute is not
  a nonzero decimal digit followed by decimal digits only.
\<close>

theorem continueSession_nonce_and_iteration_rejected:
  "(parseServerFirstMessage serverData = Inr sv \<and>
     (\<not> prefix (clientNonce sess) (nonce sv) \<or> length (nonce sv) = length (clientNonce sess))
     \<longrightarrow> (\<exists>e. continueSession cr sess pw serverData stream = Inl e)) \<and>
   (parseAttributePairs data = Inr attrPairs \<and> map_get attrPairs CHR ''i'' = Some t \<and>
     \<not> (t \<noteq> [] \<and> hd t \<in> set ''123456789'' \<and> (\<forall>c \<in> set (tl t). c \<in> set ''0123456789''))
     \<longrightarrow> (\<exists>e. parseServerFirstMessage data = Inl e))"
proof (intro conjI impI)
  assume a: "parseServerFirstMessage serverData = Inr sv \<and>
     (\<not> prefix (clientNonce sess) (nonce sv) \<or> length (nonce sv) = length (clientNonce sess))"
  show "\<exists>e. continueSession cr sess pw serverData stream = Inl e"
  proof (cases pw)
    case (JStr p)
    show ?thesis
    proof (cases serverData)
      case sd: (JStr d)
      with a JStr show ?thesis
        by (auto simp: continueSession_def bind_result_def)
    qed (simp_all add: continueSession_def JStr)
  qed (simp_all add: continueSession_def)
next
  assume a: "parseAttributePairs data = Inr attrPairs \<and> map_get attrPairs CHR ''i'' = Some t \<and>
     \<not> (t \<noteq> [] \<and> hd t \<in> set ''123456789'' \<and> (\<forall>c \<in> set (tl t). c \<in> set ''0123456789''))"
  have "\<not> iteration_regex t"
    using a by (cases t) (auto simp: list_all_iff is_digit_def)
  with a show "\<exists>e. parseServerFirstMessage data = Inl e"
    by (simp add: parseServerFirstMessage_def bind_result_def Let_def)
qed

theorem continueSession_nonce_and_iteration_rejected_witness:
  "\<forall>cr.
     parseServerFirstMessage (JStr ''r=abcX,s=AAAA,i=4096'') =
       Inr \<lparr>nonce = ''abcX'', salt = ''AAAA'', iteration = 4096\<rparr> \<and>
     \<not> prefix ''abd'' ''abcX'' \<and>
     (\<exists>e. continueSession cr
            \<lparr>mechanism = ''SCRAM-SHA-256'', clientNonce = ''abd'', response = ''n,,n=*,r=abd'',
             message = ''SASLInitialResponse'', serverSignature = None\<rparr>
            (JStr ''pencil'') (JStr ''r=abcX,s=AAAA,i=4096'') None = Inl e) \<and>
     parseAttributePairs (JStr ''r=abcX,s=AAAA,i=0'') =
       Inr [(CHR ''r'', ''abcX''), (CHR ''s'', ''AAAA''), (CHR ''i'', ''0'')] \<and>
     map_get [(CHR ''r'', ''abcX''), (CHR ''s'', ''AAAA''), (CHR ''i'', ''0'')] CHR ''i'' = Some ''0'' \<and>
     (\<exists>e. parseServerFirstMessage (JStr ''r=abcX,s=AAAA,i=0'') = Inl e)"
proof
  fix cr
  let ?sess = "\<lparr>mechanism = ''SCRAM-SHA-256'', clientNonce = ''abd'', response = ''n,,n=*,r=abd'',
             message = ''SASLInitialResponse'', serverSignature = None\<rparr>"
  let ?sv = "\<lparr>nonce = ''abcX'', salt = ''AAAA'', iteration = 4096\<rparr>"
  let ?ps = "[(CHR ''r'', ''abcX''), (CHR ''s'', ''AAAA''), (CHR ''i'', ''0'')]"
  have h1: "parseServerFirstMessage (JStr ''r=abcX,s=AAAA,i=4096'') = Inr ?sv"
    by code_simp
  have h2: "\<not> prefix (clientNonce ?sess) (nonce ?sv)"
    by simp
  have h3: "parseAttributePairs (JStr ''r=abcX,s=AAAA,i=0'') = Inr ?ps"
    by code_simp
  have h4: "map_get ?ps CHR ''i'' = Some ''0''"
    by code_simp
  have h5: "\<not> (''0'' \<noteq> [] \<and> hd ''0'' \<in> set ''123456789'' \<and> (\<forall>c \<in> set (tl ''0''). c \<in> set ''0123456789''))"
    by simp
  from continueSession_nonce_and_iteration_rejected
         [of "JStr ''r=abcX,s=AAAA,i=4096''" ?sv ?sess cr "JStr ''pencil''" None
             "JStr ''r=abcX,s=AAAA,i=0''" ?ps "''0''"]
       h1 h2 h3 h4 h5
  show "parseServerFirstMessage (JStr ''r=abcX,s=AAAA,i=4096'') = Inr ?sv \<and>
     \<not> prefix ''abd'' ''abcX'' \<and>
     (\<exists>e. continueSession cr ?sess (JStr ''pencil'') (JStr ''r=abcX,s=AAAA,i=4096'') None = Inl e) \<and>
     parseAttributePairs (JStr ''r=abcX,s=AAAA,i=0'') = Inr ?ps \<and>
     map_get ?ps CHR ''i'' = Some ''0'' \<and>
     (\<exists>e. parseServerFirstMessage (JStr ''r=abcX,s=AAAA,i=0'') = Inl e)"
    by simp
qed

text \<open>
  Claim C6: for every pair of equal-length non-empty buffers \<open>a\<close> and \<open>b\<close>,
  \<open>xorBuffers(a, b)\<close> succeeds with a buffer of the same length, and XORing that
  result with \<open>b\<close> gives \<open>a\<close> back, byte for byte. In \<open>continueSession\<close> the proof is
  \<open>xorBuffers(clientKey, clientSignature)\<close>, so XORing it with the client signature
  recovers the client key.
\<close>

theorem xorBuffers_roundtrip:
  assumes "length a = length b" and "a \<noteq> []"
  shows "\<exists>p. xorBuffers (Buffer a) (Buffer b) = Inr p \<and> length p = length a \<and>
             xorBuffers (Buffer p) (Buffer b) = Inr a"
proof -
  let ?p = "map (\<lambda>i. (a ! i) XOR (b ! i)) [0..<length a]"
  have 1: "xorBuffers (Buffer a) (Buffer b) = Inr ?p"
    using assms by (auto simp: xorBuffers_def)
  have "map (\<lambda>i. (?p ! i) XOR (b ! i)) [0..<length ?p] = a"
    by (rule nth_equalityI) (simp_all add: assms ac_simps)
  then have 2: "xorBuffers (Buffer ?p) (Buffer b) = Inr a"
    using assms by (auto simp: xorBuffers_def)
  from 1 2 show ?thesis by simp
qed

theorem xorBuffers_roundtrip_witness:
  "length [0x0f, 0xa5, 0x01 :: byte] = length [0xff, 0x5a, 0x01 :: byte] \<and>
   [0x0f, 0xa5, 0x01 :: byte] \<noteq> [] \<and>
   (\<exists>p. xorBuffers (Buffer [0x0f, 0xa5, 0x01]) (Buffer [0xff, 0x5a, 0x01]) = Inr p \<and>
        length p = length [0x0f, 0xa5, 0x01 :: byte] \<and>
        xorBuffers (Buffer p) (Buffer [0xff, 0x5a, 0x01]) = Inr [0x0f, 0xa5, 0x01])"
  using xorBuffers_roundtrip [of "[0x0f, 0xa5, 0x01]" "[0xff, 0x5a, 0x01]"] by simp

section \<open>What the client's operations leave alone\<close>

text \<open>
  The operations are compositions of a few record updates. For each of them: the backend
  key data, the store of query objects and the allocation counter after it, in terms of
  those before it.
\<close>

lemmas update_defs =
  emit_def con_call_def nextTick_def setTimeout_def clearTimeout_def set_callback_def query_call_def
  set_password_def con_connect_def connect_timeout_expired_def on_sslconnect_def on_connect_def
  cancel_this_def cancel_target_def delegate_def

lemma invoke_frame [simp]:
  "processID (snd (invoke cb e c)) = processID c"
  "secretKey (snd (invoke cb e c)) = secretKey c"
  "store (snd (invoke cb e c)) = store c"
  "fresh (snd (invoke cb e c)) = fresh c"
  "ticks (snd (invoke cb e c)) = ticks c"
  "queryQueue (snd (invoke cb e c)) = queryQueue c"
  "activeQuery (snd (invoke cb e c)) = activeQuery c"
  "readyForQuery (snd (invoke cb e c)) = readyForQuery c"
  "hasExecuted (snd (invoke cb e c)) = hasExecuted c"
  "saslSession (snd (invoke cb e c)) = saslSession c"
  by (induction cb e c rule: invoke.induct) (simp_all add: update_defs)

lemma invoke_user:
  "cb = UserFn f \<or> cb = Settle f \<Longrightarrow> invoke cb e c = (True, c\<lparr>trace := trace c @ [Called cb e]\<rparr>)"
  by auto

lemma query_handleError_frame [simp]:
  "processID (snd (query_handleError q e c)) = processID c"
  "secretKey (snd (query_handleError q e c)) = secretKey c"
  "store (snd (query_handleError q e c)) = store c"
  "fresh (snd (query_handleError q e c)) = fresh c"
  "ticks (snd (query_handleError q e c)) = ticks c"
  "activeQuery (snd (query_handleError q e c)) = activeQuery c"
  "saslSession (snd (query_handleError q e c)) = saslSession c"
  by (simp_all add: query_handleError_def Let_def split: option.splits)

lemma query_handleReadyForQuery_frame [simp]:
  "processID (snd (query_handleReadyForQuery q c)) = processID c"
  "secretKey (snd (query_handleReadyForQuery q c)) = secretKey c"
  "store (snd (query_handleReadyForQuery q c)) = store c"
  "fresh (snd (query_handleReadyForQuery q c)) = fresh c"
  by (simp_all add: query_handleReadyForQuery_def Let_def split: option.splits)

lemma pulseQueryQueue_frame [simp]:
  "processID (pulseQueryQueue c) = processID c"
  "secretKey (pulseQueryQueue c) = secretKey c"
  "store (pulseQueryQueue c) = store c"
  "fresh (pulseQueryQueue c) = fresh c"
  by (simp_all add: pulseQueryQueue_def Let_def update_defs split: list.splits option.splits)

lemma pulseQueryQueue_trace:
  "trace (pulseQueryQueue c) =
     trace c @ (if readyForQuery c
                then (case queryQueue c of
                        [] \<Rightarrow> if hasExecuted c then [Emit EmDrain] else []
                      | q # rest \<Rightarrow> [QueryMethod q Submit])
                else [])"
  by (simp add: pulseQueryQueue_def Let_def update_defs split: list.splits option.splits)

lemma pulseQueryQueue_queue:
  "queryQueue (pulseQueryQueue c) = (if readyForQuery c then tl (queryQueue c) else queryQueue c)"
  by (simp add: pulseQueryQueue_def Let_def update_defs split: list.splits option.splits)

lemma errorAllQueries_frame [simp]:
  "processID (errorAllQueries e c) = processID c"
  "secretKey (errorAllQueries e c) = secretKey c"
  "store (errorAllQueries e c) = store c"
  "fresh (errorAllQueries e c) = fresh c"
  "trace (errorAllQueries e c) = trace c"
  "saslSession (errorAllQueries e c) = saslSession c"
  by (simp_all add: errorAllQueries_def Let_def update_defs split: option.splits)

lemma handleErrorWhileConnecting_frame [simp]:
  "processID (handleErrorWhileConnecting e c) = processID c"
  "secretKey (handleErrorWhileConnecting e c) = secretKey c"
  "store (handleErrorWhileConnecting e c) = store c"
  "fresh (handleErrorWhileConnecting e c) = fresh c"
  "saslSession (handleErrorWhileConnecting e c) = saslSession c"
  by (simp_all add: handleErrorWhileConnecting_def Let_def update_defs split: option.splits)

lemma handleErrorEvent_frame [simp]:
  "processID (handleErrorEvent e c) = processID c"
  "secretKey (handleErrorEvent e c) = secretKey c"
  "store (handleErrorEvent e c) = store c"
  "fresh (handleErrorEvent e c) = fresh c"
  "saslSession (handleErrorEvent e c) = saslSession c"
  by (simp_all add: handleErrorEvent_def update_defs)

lemma con_emit_error_frame [simp]:
  "processID (con_emit_error e c) = processID c"
  "secretKey (con_emit_error e c) = secretKey c"
  "store (con_emit_error e c) = store c"
  "fresh (con_emit_error e c) = fresh c"
  "saslSession (con_emit_error e c) = saslSession c"
  by (simp_all add: con_emit_error_def)

lemma handleErrorMessage_frame [simp]:
  "processID (handleErrorMessage e c) = processID c"
  "secretKey (handleErrorMessage e c) = secretKey c"
  "store (handleErrorMessage e c) = store c"
  "fresh (handleErrorMessage e c) = fresh c"
  by (simp_all add: handleErrorMessage_def split: option.splits)

lemma run_task_frame [simp]:
  "processID (run_task t c) = processID c"
  "secretKey (run_task t c) = secretKey c"
  "store (run_task t c) = store c"
  "fresh (run_task t c) = fresh c"
  by (cases t; simp add: and_then_def update_defs)+

lemma on_end_frame [simp]:
  "processID (on_end c) = processID c"
  "secretKey (on_end c) = secretKey c"
  "store (on_end c) = store c"
  "fresh (on_end c) = fresh c"
  by (simp_all add: on_end_def Let_def update_defs split: option.splits)

lemma run_end_listener_frame [simp]:
  "processID (run_end_listener l c) = processID c"
  "secretKey (run_end_listener l c) = secretKey c"
  "store (run_end_listener l c) = store c"
  "fresh (run_end_listener l c) = fresh c"
  by (cases l; simp)+

lemma end_listeners_frame:
  "processID (foldl (\<lambda>c' l. run_end_listener l c') c ls) = processID c \<and>
   secretKey (foldl (\<lambda>c' l. run_end_listener l c') c ls) = secretKey c \<and>
   store (foldl (\<lambda>c' l. run_end_listener l c') c ls) = store c \<and>
   fresh (foldl (\<lambda>c' l. run_end_listener l c') c ls) = fresh c"
  by (induction ls arbitrary: c) simp_all

lemma connection_end_frame [simp]:
  "processID (connection_end c) = processID c"
  "secretKey (connection_end c) = secretKey c"
  "store (connection_end c) = store c"
  "fresh (connection_end c) = fresh c"
  by (simp_all add: connection_end_def end_listeners_frame)

lemma auth_continue_frame [simp]:
  "processID (auth_continue cr k c) = processID c"
  "secretKey (auth_continue cr k c) = secretKey c"
  "store (auth_continue cr k c) = store c"
  "fresh (auth_continue cr k c) = fresh c"
  by (cases k; simp add: update_defs split: sum.splits)+

lemma getPassword_frame [simp]:
  "processID (getPassword cr k c) = processID c"
  "secretKey (getPassword cr k c) = secretKey c"
  "store (getPassword cr k c) = store c"
  "fresh (getPassword cr k c) = fresh c"
  by (simp_all add: getPassword_def split: password.splits)

lemma password_produced_frame [simp]:
  "processID (password_produced cr k r c) = processID c"
  "secretKey (password_produced cr k r c) = secretKey c"
  "store (password_produced cr k r c) = store c"
  "fresh (password_produced cr k r c) = fresh c"
  by (simp_all add: password_produced_def update_defs split: sum.splits)

lemma pgpass_answered_frame [simp]:
  "processID (pgpass_answered cr k v c) = processID c"
  "secretKey (pgpass_answered cr k v c) = secretKey c"
  "store (pgpass_answered cr k v c) = store c"
  "fresh (pgpass_answered cr k v c) = fresh c"
  by (simp_all add: pgpass_answered_def update_defs)

lemma handleAuthSASLContinue_frame [simp]:
  "processID (handleAuthSASLContinue cr d c) = processID c"
  "secretKey (handleAuthSASLContinue cr d c) = secretKey c"
  "store (handleAuthSASLContinue cr d c) = store c"
  "fresh (handleAuthSASLContinue cr d c) = fresh c"
  by (simp_all add: handleAuthSASLContinue_def update_defs split: option.splits sum.splits)

lemma handleAuthSASLFinal_frame [simp]:
  "processID (handleAuthSASLFinal d c) = processID c"
  "secretKey (handleAuthSASLFinal d c) = secretKey c"
  "store (handleAuthSASLFinal d c) = store c"
  "fresh (handleAuthSASLFinal d c) = fresh c"
  by (simp_all add: handleAuthSASLFinal_def update_defs split: option.splits sum.splits)

lemma handleReadyForQuery_frame [simp]:
  "processID (handleReadyForQuery c) = processID c"
  "secretKey (handleReadyForQuery c) = secretKey c"
  "store (handleReadyForQuery c) = store c"
  "fresh (handleReadyForQuery c) = fresh c"
  by (simp_all add: handleReadyForQuery_def Let_def and_then_def update_defs split: option.splits)

lemma handleCommandComplete_frame [simp]:
  "processID (handleCommandComplete m c) = processID c"
  "secretKey (handleCommandComplete m c) = secretKey c"
  "store (handleCommandComplete m c) = store c"
  "fresh (handleCommandComplete m c) = fresh c"
  by (simp_all add: handleCommandComplete_def update_defs split: option.splits)

lemma handleParseComplete_frame [simp]:
  "processID (handleParseComplete c) = processID c"
  "secretKey (handleParseComplete c) = secretKey c"
  "store (handleParseComplete c) = store c"
  "fresh (handleParseComplete c) = fresh c"
  by (simp_all add: handleParseComplete_def update_defs split: option.splits)

lemma client_end_frame [simp]:
  "processID (snd (client_end cb c)) = processID c"
  "secretKey (snd (client_end cb c)) = secretKey c"
  "store (snd (client_end cb c)) = store c"
  "fresh c \<le> fresh (snd (client_end cb c))"
  by (simp_all add: client_end_def Let_def update_defs split: option.splits)

lemma connect_frame [simp]:
  "processID (snd (connect cb c)) = processID c"
  "secretKey (snd (connect cb c)) = secretKey c"
  "store (snd (connect cb c)) = store c"
  "fresh c \<le> fresh (snd (connect cb c))"
  by (simp_all add: connect_def connect_internal_def Let_def update_defs split: option.splits prod.splits)

lemma listener_frame:
  "store (listener cr ev c) = store c \<and> fresh (listener cr ev c) = fresh c"
  by (cases ev) (simp_all add: update_defs handleBackendKeyData_def split: option.splits)

lemma listener_keys:
  "(\<forall>pid key. ev \<noteq> BackendKeyData pid key) \<Longrightarrow>
   processID (listener cr ev c) = processID c \<and> secretKey (listener cr ev c) = secretKey c"
  by (cases ev) (simp_all add: update_defs split: option.splits)

text \<open>The parts of \<open>query\<close> before the queue is touched write to the store, the timers
  and the allocation counter only.\<close>

lemma query_setup_frame:
  assumes "query_setup a c = Inr (q, r, t, c')"
  shows "processID c' = processID c" "secretKey c' = secretKey c"
    "queryQueue c' = queryQueue c" "activeQuery c' = activeQuery c"
    "trace c' = trace c" "ticks c' = ticks c"
    "queryable c' = queryable c" "ending c' = ending c" "q = query_of a c"
  using assms by (cases a; auto simp: Let_def update_defs split: option.splits)+

lemma query_setup_total:
  "a \<noteq> NullArg \<Longrightarrow> \<exists>q r t c'. query_setup a c = Inr (q, r, t, c')"
  by (cases a) (auto simp: Let_def split: option.splits)

lemma arm_read_timeout_frame [simp]:
  "processID (arm_read_timeout q c) = processID c"
  "secretKey (arm_read_timeout q c) = secretKey c"
  "queryQueue (arm_read_timeout q c) = queryQueue c"
  "activeQuery (arm_read_timeout q c) = activeQuery c"
  "trace (arm_read_timeout q c) = trace c"
  "ticks (arm_read_timeout q c) = ticks c"
  "queryable (arm_read_timeout q c) = queryable c"
  "ending (arm_read_timeout q c) = ending c"
  "fresh (arm_read_timeout q c) = fresh c"
  by (simp_all add: arm_read_timeout_def Let_def update_defs)

lemma inherit_settings_frame [simp]:
  "processID (inherit_settings q c) = processID c"
  "secretKey (inherit_settings q c) = secretKey c"
  "queryQueue (inherit_settings q c) = queryQueue c"
  "activeQuery (inherit_settings q c) = activeQuery c"
  "trace (inherit_settings q c) = trace c"
  "ticks (inherit_settings q c) = ticks c"
  "queryable (inherit_settings q c) = queryable c"
  "ending (inherit_settings q c) = ending c"
  "fresh (inherit_settings q c) = fresh c"
  by (simp_all add: inherit_settings_def Let_def)

lemma query_unfold:
  assumes "query_setup a c = Inr (q, r, t, c0)"
  shows "query a c =
     (let c2 = inherit_settings q (if t \<noteq> 0 then arm_read_timeout q c0 else c0)
      in if \<not> queryable c
         then Inr (r, nextTick (TaskHandleError q
                     (Error ''Client has encountered a connection error and is not queryable'')) c2)
         else if ending c
         then Inr (r, nextTick (TaskHandleError q (Error ''Client was closed and is not queryable'')) c2)
         else Inr (r, pulseQueryQueue (c2\<lparr>queryQueue := queryQueue c @ [q]\<rparr>)))"
  using assms query_setup_frame(3,7,8) [OF assms]
  by (simp add: query_def bind_result_def Let_def)

lemma query_keys:
  assumes "query a c = Inr (r, c')"
  shows "processID c' = processID c \<and> secretKey c' = secretKey c"
proof -
  from assms obtain q res t c0 where s: "query_setup a c = Inr (q, res, t, c0)"
    by (auto simp: query_def bind_result_def split: sum.splits)
  from assms query_setup_frame(1,2) [OF s] show ?thesis
    unfolding query_unfold [OF s] by (auto simp: Let_def nextTick_def split: if_splits)
qed

lemma timer_expired_keys [simp]:
  "processID (timer_expired tm c) = processID c"
  "secretKey (timer_expired tm c) = secretKey c"
  by (cases tm; simp add: read_timeout_expired_def Let_def and_then_def update_defs split: option.splits)+

lemma step_keys:
  "(\<forall>pid key. ev \<noteq> BackendKeyData pid key) \<Longrightarrow>
   processID (step cr ev c) = processID c \<and> secretKey (step cr ev c) = secretKey c"
  by (cases ev)
     (auto simp: update_defs listener_keys split: sum.splits option.splits list.splits dest: query_keys)

lemma run_keys:
  "(\<forall>ev \<in> set evs. \<forall>pid key. ev \<noteq> BackendKeyData pid key) \<Longrightarrow>
   processID (run cr evs c) = processID c \<and> secretKey (run cr evs c) = secretKey c"
  unfolding run_def by (induction evs arbitrary: c) (simp_all add: step_keys)

text \<open>The effects of a call only grow, and a handler of a query object starts them with
  the call of the handler.\<close>

lemma invoke_trace: "\<exists>rest. trace (snd (invoke cb e c)) = trace c @ rest"
  by (induction cb e c rule: invoke.induct) (simp_all add: update_defs)

lemma query_handleError_trace:
  "\<exists>rest. trace (snd (query_handleError q e c)) = trace c @ QueryMethod q (HandleError e) # rest"
proof (cases "callback (store c q)")
  case None
  then show ?thesis by (simp add: query_handleError_def)
next
  case (Some cb)
  obtain rest where
    "trace (snd (invoke cb (Some e) (c\<lparr>trace := trace c @ [QueryMethod q (HandleError e)]\<rparr>))) =
     trace (c\<lparr>trace := trace c @ [QueryMethod q (HandleError e)]\<rparr>) @ rest"
    using invoke_trace by blast
  with Some show ?thesis by (simp add: query_handleError_def)
qed

lemma run_task_handleError_trace:
  "\<exists>rest. trace (run_task (TaskHandleError q e) c) = trace c @ QueryMethod q (HandleError e) # rest"
  using query_handleError_trace by simp

lemma run_task_submitError_trace:
  "\<exists>rest. trace (run_task (TaskSubmitError q e) c) = trace c @ QueryMethod q (HandleError e) # rest"
proof -
  obtain rest where r: "trace (snd (query_handleError q e c)) = trace c @ QueryMethod q (HandleError e) # rest"
    using query_handleError_trace by blast
  show ?thesis
  proof (cases "fst (query_handleError q e c)")
    case True
    then show ?thesis using r by (simp add: and_then_def pulseQueryQueue_trace)
  next
    case False
    then show ?thesis using r by (simp add: and_then_def)
  qed
qed

lemma query_handlers_noop:
  assumes "callback (store c q) = Some Noop"
  shows "trace (snd (query_handleError q e c)) = trace c @ [QueryMethod q (HandleError e)]"
    and "trace (snd (query_handleReadyForQuery q c)) = trace c @ [QueryMethod q HandleReadyForQuery]"
  using assms by (simp_all add: query_handleError_def query_handleReadyForQuery_def)

text \<open>Only \<open>query\<close> and the read timeout write to \<open>query.callback\<close>: \<open>query\<close> to that of
  the object it is called with, the read timeout the function that ignores its
  arguments.\<close>

lemma allocated_mono: "allocated q c \<Longrightarrow> fresh c \<le> fresh c' \<Longrightarrow> allocated q c'"
  by (cases q) simp_all

lemma query_setup_other:
  assumes "query_setup a c = Inr (q', r, t, c')" and "\<forall>v. a \<noteq> Submittable q v" and "allocated q c"
  shows "q' \<noteq> q \<and> callback (store c' q) = callback (store c q) \<and> fresh c \<le> fresh c'"
proof (cases a)
  case NullArg
  with assms show ?thesis by simp
next
  case (Submittable q0 v)
  with assms show ?thesis
    by (auto simp: Let_def update_defs split: option.splits)
next
  case (Config t0 obj)
  with assms show ?thesis
    by (cases q) (auto simp: Let_def update_defs split: option.splits)
qed

lemma query_other:
  assumes "query a c = Inr (r, c')" and "\<forall>v. a \<noteq> Submittable q v" and "allocated q c"
  shows "callback (store c' q) = callback (store c q) \<and> fresh c \<le> fresh c'"
proof -
  from assms(1) obtain q' res t c0 where s: "query_setup a c = Inr (q', res, t, c0)"
    by (auto simp: query_def bind_result_def split: sum.splits)
  from query_setup_other [OF s assms(2,3)]
  have ne: "q' \<noteq> q" and cb: "callback (store c0 q) = callback (store c q)" and fr: "fresh c \<le> fresh c0"
    by simp_all
  have arm: "callback (store (arm_read_timeout q' c0) q) = callback (store c0 q)"
    using ne by (simp add: arm_read_timeout_def Let_def update_defs)
  have inh: "\<And>c1. callback (store (inherit_settings q' c1) q) = callback (store c1 q)"
    using ne by (simp add: inherit_settings_def Let_def)
  from assms(1) cb fr arm inh show ?thesis
    unfolding query_unfold [OF s] by (auto simp: Let_def nextTick_def split: if_splits)
qed

lemma timer_expired_noop:
  "callback (store c q) = Some Noop \<Longrightarrow>
   callback (store (timer_expired tm c) q) = Some Noop \<and> fresh (timer_expired tm c) = fresh c"
  by (cases tm)
     (auto simp: read_timeout_expired_def Let_def and_then_def update_defs split: option.splits)

lemma step_noop:
  assumes "callback (store c q) = Some Noop" and "allocated q c"
    and "\<forall>v. ev \<noteq> CallQuery (Submittable q v)"
  shows "callback (store (step cr ev c) q) = Some Noop \<and> allocated q (step cr ev c)"
proof (cases ev)
  case (CallQuery a)
  show ?thesis
  proof (cases "query a c")
    case (Inl e)
    with CallQuery assms show ?thesis by simp
  next
    case (Inr rc)
    obtain r c' where rc: "rc = (r, c')" by (cases rc)
    from assms(3) CallQuery have "\<forall>v. a \<noteq> Submittable q v" by simp
    from query_other [OF Inr [unfolded rc] this assms(2)] assms(1,2) CallQuery Inr rc
    show ?thesis by (auto intro: allocated_mono)
  qed
next
  case (TimerExpires t)
  show ?thesis
  proof (cases "timers c t")
    case None
    with TimerExpires assms show ?thesis by simp
  next
    case (Some tm)
    from assms(1) have "callback (store (c\<lparr>timers := (timers c)(t := None)\<rparr>) q) = Some Noop"
      by simp
    from timer_expired_noop [OF this, of tm] TimerExpires Some assms(2)
    show ?thesis by (auto intro: allocated_mono)
  qed
next
  case (CallConnect cb)
  with assms show ?thesis by (auto intro: allocated_mono [OF _ connect_frame(4)])
next
  case (CallEnd cb)
  with assms show ?thesis by (auto intro: allocated_mono [OF _ client_end_frame(4)])
next
  case Tick
  with assms show ?thesis by (auto split: list.splits intro: allocated_mono)
qed (use assms in \<open>auto simp del: listener.simps simp: update_defs listener_frame
                          intro: allocated_mono\<close>)

lemma run_noop:
  "callback (store c q) = Some Noop \<Longrightarrow> allocated q c \<Longrightarrow>
   \<forall>ev \<in> set evs. \<forall>v. ev \<noteq> CallQuery (Submittable q v) \<Longrightarrow>
   callback (store (run cr evs c) q) = Some Noop"
  unfolding run_def
proof (induction evs arbitrary: c)
  case Nil
  then show ?case by simp
next
  case (Cons ev evs)
  from Cons.prems have "\<forall>v. ev \<noteq> CallQuery (Submittable q v)" by simp
  from step_noop [OF Cons.prems(1,2) this, of cr] Cons.prems(3) Cons.IH [of "step cr ev c"]
  show ?case by simp
qed

section \<open>Properties of the client\<close>

text \<open>
  Claim C1: on every client that is ending or not queryable, a call of \<open>query\<close> with an
  argument that is neither \<open>null\<close> nor \<open>undefined\<close> returns normally, leaves the
  query queue and the active query as they were and calls nothing at once; it hands one
  closure to \<open>process.nextTick\<close>, which calls \<open>handleError\<close> of the query object of
  the call with an error: "Client was closed and is not queryable" on an ending client
  that is still queryable, "Client has encountered a connection error and is not
  queryable" on one that is not queryable. Running such a closure starts with that call
  of \<open>handleError\<close>.
\<close>

theorem query_refused_when_ending_or_not_queryable:
  assumes "ending c \<or> \<not> queryable c" and "config \<noteq> NullArg"
  shows "(\<exists>result c'.
            query config c = Inr (result, c') \<and>
            queryQueue c' = queryQueue c \<and> activeQuery c' = activeQuery c \<and>
            trace c' = trace c \<and>
            ticks c' = ticks c @
              [TaskHandleError (query_of config c)
                 (Error (if queryable c then ''Client was closed and is not queryable''
                         else ''Client has encountered a connection error and is not queryable''))]) \<and>
         (\<forall>q err s. \<exists>rest.
            trace (run_task (TaskHandleError q err) s) = trace s @ QueryMethod q (HandleError err) # rest)"
proof (rule conjI)
  show "\<forall>q err s. \<exists>rest.
          trace (run_task (TaskHandleError q err) s) = trace s @ QueryMethod q (HandleError err) # rest"
    using run_task_handleError_trace by blast
next
  from query_setup_total [OF assms(2), of c]
  obtain q r t c0 where s: "query_setup config c = Inr (q, r, t, c0)" by blast
  note fr = query_setup_frame [OF s]
  from assms(1) fr show "\<exists>result c'.
            query config c = Inr (result, c') \<and>
            queryQueue c' = queryQueue c \<and> activeQuery c' = activeQuery c \<and>
            trace c' = trace c \<and>
            ticks c' = ticks c @
              [TaskHandleError (query_of config c)
                 (Error (if queryable c then ''Client was closed and is not queryable''
                         else ''Client has encountered a connection error and is not queryable''))]"
    unfolding query_unfold [OF s] by (auto simp: Let_def nextTick_def)
qed

theorem query_refused_when_ending_or_not_queryable_witness:
  "ending (snd (client_end None example_ready)) \<and>
   Config 0 example_query \<noteq> NullArg \<and>
   (\<exists>result c'.
      query (Config 0 example_query) (snd (client_end None example_ready)) = Inr (result, c') \<and>
      queryQueue c' = queryQueue (snd (client_end None example_ready)) \<and>
      activeQuery c' = activeQuery (snd (client_end None example_ready)) \<and>
      trace c' = trace (snd (client_end None example_ready)) \<and>
      ticks c' = ticks (snd (client_end None example_ready)) @
        [TaskHandleError (Made 1) (Error ''Client was closed and is not queryable'')])"
proof -
  let ?c = "snd (client_end None example_ready)"
  have e: "ending ?c" by code_simp
  have q: "queryable ?c" by code_simp
  have f: "query_of (Config 0 example_query) ?c = Made 1" by code_simp
  from query_refused_when_ending_or_not_queryable [of ?c "Config 0 example_query"] e q f
  show ?thesis by simp
qed



text \<open>
  Claim C3, as stated, at a concrete input: the client is connected, the caller's query
  \<open>Given 0\<close> is active and the backend sends an ErrorResponse. \<open>_handleErrorMessage\<close>
  calls the query's \<open>handleError\<close> itself, inside the handler of the inbound message
  (and with it the caller's callback), and hands nothing to \<open>process.nextTick\<close>.
\<close>

theorem error_message_reaches_the_query_synchronously:
  "activeQuery example_executing = Some (Given 0) \<and>
   connecting example_executing = False \<and>
   ticks (handleErrorMessage (Error ''division by zero'') example_executing) = [] \<and>
   trace (handleErrorMessage (Error ''division by zero'') example_executing) =
     trace example_executing @
     [QueryMethod (Given 0) (HandleError (Error ''division by zero'')),
      Called (UserFn 7) (Some (Error ''division by zero''))]"
  by code_simp

text \<open>
  Claim C3, amended: a socket error (\<open>_errorAllQueries\<close>, and \<open>_handleErrorEvent\<close> on a
  client that is not connecting) calls no \<open>handleError\<close> in the handler; it hands one
  closure per failed query to \<open>process.nextTick\<close>, for the active query first and then
  for the queued ones in order. A preflight error of \<open>submit\<close> is handed to
  \<open>process.nextTick\<close> as well. Each such closure, when it runs, starts with the call of
  the query's \<open>handleError\<close>. A backend ErrorResponse that arrives for the active query
  of a client that is not connecting is different: \<open>_handleErrorMessage\<close> clears the
  active query and calls its \<open>handleError\<close> at once, within the handler, and hands
  nothing to \<open>process.nextTick\<close>.
\<close>

theorem failing_a_query_now_or_on_a_later_tick:
  "(trace (errorAllQueries err c) = trace c \<and>
    ticks (errorAllQueries err c) =
      ticks c @ map (\<lambda>q. TaskHandleError q err)
                  ((case activeQuery c of None \<Rightarrow> [] | Some q \<Rightarrow> [q]) @ queryQueue c)) \<and>
   (\<not> connecting c1 \<longrightarrow>
      trace (handleErrorEvent err c1) = trace c1 @ [Emit (EmError err)] \<and>
      ticks (handleErrorEvent err c1) =
        ticks c1 @ map (\<lambda>q. TaskHandleError q err)
                     ((case activeQuery c1 of None \<Rightarrow> [] | Some q \<Rightarrow> [q]) @ queryQueue c1)) \<and>
   (readyForQuery c2 \<and> queryQueue c2 = q2 # rest2 \<and> submit (store c2 q2) = Some e2 \<longrightarrow>
      trace (pulseQueryQueue c2) = trace c2 @ [QueryMethod q2 Submit] \<and>
      ticks (pulseQueryQueue c2) = ticks c2 @ [TaskSubmitError q2 e2]) \<and>
   (\<forall>q e s. \<exists>rest. trace (run_task (TaskHandleError q e) s) =
                      trace s @ QueryMethod q (HandleError e) # rest) \<and>
   (\<forall>q e s. \<exists>rest. trace (run_task (TaskSubmitError q e) s) =
                      trace s @ QueryMethod q (HandleError e) # rest) \<and>
   (\<not> connecting c3 \<and> activeQuery c3 = Some q3 \<longrightarrow>
      (\<exists>rest. trace (handleErrorMessage msg c3) = trace c3 @ QueryMethod q3 (HandleError msg) # rest) \<and>
      ticks (handleErrorMessage msg c3) = ticks c3 \<and>
      activeQuery (handleErrorMessage msg c3) = None)"
proof (intro conjI impI)
  show "trace (errorAllQueries err c) = trace c"
    by simp
  show "ticks (errorAllQueries err c) =
      ticks c @ map (\<lambda>q. TaskHandleError q err)
                  ((case activeQuery c of None \<Rightarrow> [] | Some q \<Rightarrow> [q]) @ queryQueue c)"
    by (simp add: errorAllQueries_def Let_def nextTick_def split: option.splits)
next
  assume "\<not> connecting c1"
  then show "trace (handleErrorEvent err c1) = trace c1 @ [Emit (EmError err)]"
    by (simp add: handleErrorEvent_def emit_def)
next
  assume "\<not> connecting c1"
  then show "ticks (handleErrorEvent err c1) =
        ticks c1 @ map (\<lambda>q. TaskHandleError q err)
                     ((case activeQuery c1 of None \<Rightarrow> [] | Some q \<Rightarrow> [q]) @ queryQueue c1)"
    by (simp add: handleErrorEvent_def emit_def errorAllQueries_def Let_def nextTick_def
             split: option.splits)
next
  assume "readyForQuery c2 \<and> queryQueue c2 = q2 # rest2 \<and> submit (store c2 q2) = Some e2"
  then show "trace (pulseQueryQueue c2) = trace c2 @ [QueryMethod q2 Submit]"
    by (simp add: pulseQueryQueue_trace)
next
  assume "readyForQuery c2 \<and> queryQueue c2 = q2 # rest2 \<and> submit (store c2 q2) = Some e2"
  then show "ticks (pulseQueryQueue c2) = ticks c2 @ [TaskSubmitError q2 e2]"
    by (simp add: pulseQueryQueue_def Let_def update_defs)
next
  show "\<forall>q e s. \<exists>rest. trace (run_task (TaskHandleError q e) s) =
                      trace s @ QueryMethod q (HandleError e) # rest"
    using run_task_handleError_trace by blast
  show "\<forall>q e s. \<exists>rest. trace (run_task (TaskSubmitError q e) s) =
                      trace s @ QueryMethod q (HandleError e) # rest"
    using run_task_submitError_trace by blast
next
  assume a: "\<not> connecting c3 \<and> activeQuery c3 = Some q3"
  have "\<exists>rest. trace (snd (query_handleError q3 msg (c3\<lparr>activeQuery := None\<rparr>))) =
          trace (c3\<lparr>activeQuery := None\<rparr>) @ QueryMethod q3 (HandleError msg) # rest"
    by (rule query_handleError_trace)
  with a show "\<exists>rest. trace (handleErrorMessage msg c3) =
                 trace c3 @ QueryMethod q3 (HandleError msg) # rest"
    by (simp add: handleErrorMessage_def)
next
  assume "\<not> connecting c3 \<and> activeQuery c3 = Some q3"
  then show "ticks (handleErrorMessage msg c3) = ticks c3"
    by (simp add: handleErrorMessage_def)
next
  assume "\<not> connecting c3 \<and> activeQuery c3 = Some q3"
  then show "activeQuery (handleErrorMessage msg c3) = None"
    by (simp add: handleErrorMessage_def)
qed

theorem failing_a_query_now_or_on_a_later_tick_witness:
  "connecting example_executing = False \<and>
   trace (handleErrorEvent (Error ''ECONNRESET'') example_executing) =
     trace example_executing @ [Emit (EmError (Error ''ECONNRESET''))] \<and>
   ticks (handleErrorEvent (Error ''ECONNRESET'') example_executing) =
     ticks example_executing @ [TaskHandleError (Given 0) (Error ''ECONNRESET'')] \<and>
   readyForQuery (example_ready\<lparr>queryQueue := [Given 1]\<rparr>) \<and>
   submit (store (example_ready\<lparr>queryQueue := [Given 1]\<rparr>) (Given 1)) = Some (Error ''preflight'') \<and>
   trace (pulseQueryQueue (example_ready\<lparr>queryQueue := [Given 1]\<rparr>)) =
     trace example_ready @ [QueryMethod (Given 1) Submit] \<and>
   ticks (pulseQueryQueue (example_ready\<lparr>queryQueue := [Given 1]\<rparr>)) =
     ticks example_ready @ [TaskSubmitError (Given 1) (Error ''preflight'')] \<and>
   activeQuery example_executing = Some (Given 0) \<and>
   (\<exists>rest. trace (handleErrorMessage (Error ''division by zero'') example_executing) =
            trace example_executing @
            QueryMethod (Given 0) (HandleError (Error ''division by zero'')) # rest) \<and>
   ticks (handleErrorMessage (Error ''division by zero'') example_executing) =
     ticks example_executing \<and>
   activeQuery (handleErrorMessage (Error ''division by zero'') example_executing) = None"
proof -
  let ?c2 = "example_ready\<lparr>queryQueue := [Given 1]\<rparr>"
  have h1: "\<not> connecting example_executing" by code_simp
  have h2: "activeQuery example_executing = Some (Given 0)" by code_simp
  have h3: "queryQueue example_executing = []" by code_simp
  have h4: "readyForQuery ?c2" by code_simp
  have h5: "submit (store ?c2 (Given 1)) = Some (Error ''preflight'')" by code_simp
  have h6: "queryQueue ?c2 = Given 1 # []" by simp
  from failing_a_query_now_or_on_a_later_tick
         [of "Error ''ECONNRESET''" example_executing example_executing ?c2 "Given 1" "[]"
             "Error ''preflight''" example_executing "Given 0" "Error ''division by zero''"]
       h1 h2 h3 h4 h5 h6
  show ?thesis by simp
qed

text \<open>
  Claim C8, evaluated where the code departs from it: \<open>end(cb)\<close> with a callback on a
  client that never connected. The callback is called at once, but the call does not
  return there: it goes on to \<open>connection.end()\<close> and registers the callback for the
  connection's \<open>end\<close> event, where it is called a second time when the connection emits
  it. Without a callback the same client returns a resolved promise and touches
  nothing.
\<close>

theorem end_with_callback_on_a_client_never_connected:
  "con_connecting example_client = False \<and>
   fst (client_end (Some 3) example_client) = EndUndefined \<and>
   trace (snd (client_end (Some 3) example_client)) = [Called (UserFn 3) None, Con ConnectionEnd] \<and>
   end_listeners (snd (client_end (Some 3) example_client)) = [Waiter (UserFn 3)] \<and>
   trace (connection_end (snd (client_end (Some 3) example_client))) =
     [Called (UserFn 3) None, Con ConnectionEnd, Called (UserFn 3) None] \<and>
   fst (client_end None example_client) = EndResolved \<and>
   trace (snd (client_end None example_client)) = [] \<and>
   end_listeners (snd (client_end None example_client)) = []"
  by code_simp

theorem end_with_callback_on_a_client_never_connected_witness:
  "trace (snd (client_end (Some 3) example_client)) = [Called (UserFn 3) None, Con ConnectionEnd] \<and>
   trace (snd (client_end None example_client)) = []"
  using end_with_callback_on_a_client_never_connected by simp

text \<open>
  Claim C9, as stated, at a concrete input: a second BackendKeyData message with other
  values replaces the process id and the secret key set by the first.
\<close>

theorem second_BackendKeyData_overwrites:
  "processID (handleBackendKeyData 4711 99 example_ready) = Some 4711 \<and>
   secretKey (handleBackendKeyData 4711 99 example_ready) = Some 99 \<and>
   processID (handleBackendKeyData 4712 7 (handleBackendKeyData 4711 99 example_ready)) = Some 4712 \<and>
   secretKey (handleBackendKeyData 4712 7 (handleBackendKeyData 4711 99 example_ready)) = Some 7"
  by (simp add: handleBackendKeyData_def)

text \<open>
  Claim C9, amended: \<open>processID\<close> and \<open>secretKey\<close> are written by
  \<open>_handleBackendKeyData\<close> and by nothing else. Every BackendKeyData message that
  reaches the client sets them to its own values, whether or not they were set before;
  and over every run of events without a BackendKeyData message (calls of the
  interface, \<open>process.nextTick\<close> closures, timers, answers for the password, other
  events of the connection) they keep their values.
\<close>

theorem processID_secretKey_written_by_BackendKeyData_only:
  "(attached c \<longrightarrow>
      processID (step cr (BackendKeyData pid key) c) = Some pid \<and>
      secretKey (step cr (BackendKeyData pid key) c) = Some key) \<and>
   ((\<forall>ev \<in> set evs. \<forall>pid' key'. ev \<noteq> BackendKeyData pid' key') \<longrightarrow>
      processID (run cr evs c') = processID c' \<and> secretKey (run cr evs c') = secretKey c')"
  using run_keys [of evs cr c'] by (simp add: handleBackendKeyData_def)

theorem processID_secretKey_written_by_BackendKeyData_only_witness:
  "\<forall>cr.
     attached example_ready \<and>
     processID (step cr (BackendKeyData 4711 99) example_ready) = Some 4711 \<and>
     secretKey (step cr (BackendKeyData 4711 99) example_ready) = Some 99 \<and>
     processID (run cr [CallQuery (Submittable (Given 0) None), ErrorMessage (Error ''syntax error''),
                        ReadyForQuery, CallEnd None, ConEnd, Tick]
                  (step cr (BackendKeyData 4711 99) example_ready)) = Some 4711 \<and>
     secretKey (run cr [CallQuery (Submittable (Given 0) None), ErrorMessage (Error ''syntax error''),
                        ReadyForQuery, CallEnd None, ConEnd, Tick]
                  (step cr (BackendKeyData 4711 99) example_ready)) = Some 99"
proof
  fix cr
  let ?evs = "[CallQuery (Submittable (Given 0) None), ErrorMessage (Error ''syntax error''),
               ReadyForQuery, CallEnd None, ConEnd, Tick]"
  have h1: "attached example_ready" by code_simp
  have h2: "\<forall>ev \<in> set ?evs. \<forall>pid' key'. ev \<noteq> BackendKeyData pid' key'" by simp
  from processID_secretKey_written_by_BackendKeyData_only
         [of example_ready cr 4711 99 ?evs "step cr (BackendKeyData 4711 99) example_ready"]
       h1 h2
  show "attached example_ready \<and>
     processID (step cr (BackendKeyData 4711 99) example_ready) = Some 4711 \<and>
     secretKey (step cr (BackendKeyData 4711 99) example_ready) = Some 99 \<and>
     processID (run cr ?evs (step cr (BackendKeyData 4711 99) example_ready)) = Some 4711 \<and>
     secretKey (run cr ?evs (step cr (BackendKeyData 4711 99) example_ready)) = Some 99"
    by simp
qed

text \<open>
  Claim C7, as stated, at a concrete input: with neither \<open>application_name\<close> nor
  \<open>fallback_application_name\<close> set, the map returned has no
  \<open>application_name\<close> at all.
\<close>

theorem getStartupConf_without_application_name:
  "application_name example_params = JUndefined \<and>
   fallback_application_name example_params = JUndefined \<and>
   getStartupConf example_params = [(''user'', JStr ''alice''), (''database'', JStr ''shop'')] \<and>
   map_of (getStartupConf example_params) ''application_name'' = None"
  by (simp add: getStartupConf_def example_params_def js_or_def)

text \<open>
  Claim C7, amended: for every resolved set of connection parameters the map returned by
  \<open>getStartupConf\<close> has \<open>user\<close> and \<open>database\<close> always, with the parameters' values;
  \<open>application_name\<close> exactly when \<open>application_name\<close> or, failing that,
  \<open>fallback_application_name\<close> is truthy, with the first truthy one of the two as its
  value; \<open>replication\<close> exactly when it is truthy, converted to a string;
  \<open>statement_timeout\<close>, \<open>lock_timeout\<close> and \<open>idle_in_transaction_session_timeout\<close>
  each exactly when truthy, as the string of \<open>parseInt(value, 10)\<close>; \<open>options\<close>
  exactly when truthy, as it is; and no other key. The keys are in this order.
\<close>

theorem getStartupConf_contents:
  "getStartupConf ps =
     [(''user'', user ps), (''database'', database ps)] @
     (if truthy (application_name ps) then [(''application_name'', application_name ps)]
      else if truthy (fallback_application_name ps)
      then [(''application_name'', fallback_application_name ps)] else []) @
     (if truthy (replication ps) then [(''replication'', JStr (to_string (replication ps)))] else []) @
     (if truthy (statement_timeout ps)
      then [(''statement_timeout'', JStr (number_string (parseInt10 (statement_timeout ps))))]
      else []) @
     (if truthy (lock_timeout ps)
      then [(''lock_timeout'', JStr (number_string (parseInt10 (lock_timeout ps))))] else []) @
     (if truthy (idle_in_transaction_session_timeout ps)
      then [(''idle_in_transaction_session_timeout'',
             JStr (number_string (parseInt10 (idle_in_transaction_session_timeout ps))))]
      else []) @
     (if truthy (options ps) then [(''options'', options ps)] else [])"
  by (simp add: getStartupConf_def Let_def js_or_def)

text \<open>
  Claim C10: \<open>continueSession\<close> throws whenever the password is not a string or is the
  empty string, and the error it throws is fixed by the session's last message and the
  password alone: it is the same for every server-first message, every transport and
  every implementation of the crypto helpers, so none of them is looked at before. In
  the client, \<open>_handleAuthSASLContinue\<close> with such a password emits that error on the
  connection; it sends no client-final message and leaves the SCRAM session as it was,
  so the exchange does not get past the server-first step.
\<close>

theorem continueSession_needs_a_nonempty_string_password:
  "(\<not> is_string pw \<or> pw = JStr [] \<longrightarrow>
      continueSession cr sess pw serverData stream =
        Inl (Error (if message sess \<noteq> ''SASLInitialResponse''
                    then ''SASL: Last message was not SASLInitialResponse''
                    else if pw = JStr []
                    then ''SASL: SCRAM-SERVER-FIRST-MESSAGE: client password must be a non-empty string''
                    else ''SASL: SCRAM-SERVER-FIRST-MESSAGE: client password must be a string''))) \<and>
   ((\<not> is_string (password_value c) \<or> password_value c = JStr []) \<and> saslSession c = Some s \<longrightarrow>
      handleAuthSASLContinue cr data c =
        con_emit_error
          (Error (if message s \<noteq> ''SASLInitialResponse''
                  then ''SASL: Last message was not SASLInitialResponse''
                  else if password_value c = JStr []
                  then ''SASL: SCRAM-SERVER-FIRST-MESSAGE: client password must be a non-empty string''
                  else ''SASL: SCRAM-SERVER-FIRST-MESSAGE: client password must be a string'')) c \<and>
      saslSession (handleAuthSASLContinue cr data c) = Some s \<and>
      (\<forall>r. Con (SCRAMClientFinalMessage r) \<in> set (trace (handleAuthSASLContinue cr data c)) \<longrightarrow>
           Con (SCRAMClientFinalMessage r) \<in> set (trace c)))"
proof -
  have cs: "continueSession cr' sess' pw' sd st =
        Inl (Error (if message sess' \<noteq> ''SASLInitialResponse''
                    then ''SASL: Last message was not SASLInitialResponse''
                    else if pw' = JStr []
                    then ''SASL: SCRAM-SERVER-FIRST-MESSAGE: client password must be a non-empty string''
                    else ''SASL: SCRAM-SERVER-FIRST-MESSAGE: client password must be a string''))"
    if "\<not> is_string pw' \<or> pw' = JStr []" for cr' sess' pw' sd st
    using that by (cases pw') (simp_all add: continueSession_def)
  have tr: "Con (SCRAMClientFinalMessage r) \<in> set (trace (con_emit_error e c')) \<Longrightarrow>
            Con (SCRAMClientFinalMessage r) \<in> set (trace c')" for r e c'
  proof -
    assume a: "Con (SCRAMClientFinalMessage r) \<in> set (trace (con_emit_error e c'))"
    have inv: "\<And>cb x c0. Con (SCRAMClientFinalMessage r) \<in> set (trace (snd (invoke cb x c0))) \<Longrightarrow>
                 Con (SCRAMClientFinalMessage r) \<in> set (trace c0)"
    proof -
      fix cb x c0
      show "Con (SCRAMClientFinalMessage r) \<in> set (trace (snd (invoke cb x c0))) \<Longrightarrow>
                 Con (SCRAMClientFinalMessage r) \<in> set (trace c0)"
        by (induction cb x c0 rule: invoke.induct) (simp_all add: update_defs)
    qed
    from a show ?thesis
      by (auto simp: con_emit_error_def handleErrorEvent_def handleErrorWhileConnecting_def
                     Let_def update_defs
               split: if_splits option.splits dest: inv)
  qed
  show ?thesis
  proof (intro conjI impI allI)
    assume "\<not> is_string pw \<or> pw = JStr []"
    then show "continueSession cr sess pw serverData stream =
        Inl (Error (if message sess \<noteq> ''SASLInitialResponse''
                    then ''SASL: Last message was not SASLInitialResponse''
                    else if pw = JStr []
                    then ''SASL: SCRAM-SERVER-FIRST-MESSAGE: client password must be a non-empty string''
                    else ''SASL: SCRAM-SERVER-FIRST-MESSAGE: client password must be a string''))"
      by (rule cs)
  next
    assume a: "(\<not> is_string (password_value c) \<or> password_value c = JStr []) \<and> saslSession c = Some s"
    then have eq: "handleAuthSASLContinue cr data c =
        con_emit_error
          (Error (if message s \<noteq> ''SASLInitialResponse''
                  then ''SASL: Last message was not SASLInitialResponse''
                  else if password_value c = JStr []
                  then ''SASL: SCRAM-SERVER-FIRST-MESSAGE: client password must be a non-empty string''
                  else ''SASL: SCRAM-SERVER-FIRST-MESSAGE: client password must be a string'')) c"
      using cs [of "password_value c" cr s "JStr data" "binding_stream c"]
      by (simp add: handleAuthSASLContinue_def)
    show "handleAuthSASLContinue cr data c =
        con_emit_error
          (Error (if message s \<noteq> ''SASLInitialResponse''
                  then ''SASL: Last message was not SASLInitialResponse''
                  else if password_value c = JStr []
                  then ''SASL: SCRAM-SERVER-FIRST-MESSAGE: client password must be a non-empty string''
                  else ''SASL: SCRAM-SERVER-FIRST-MESSAGE: client password must be a string'')) c"
      by (rule eq)
    show "saslSession (handleAuthSASLContinue cr data c) = Some s"
      using a unfolding eq by simp
    fix r
    assume "Con (SCRAMClientFinalMessage r) \<in> set (trace (handleAuthSASLContinue cr data c))"
    then show "Con (SCRAMClientFinalMessage r) \<in> set (trace c)"
      unfolding eq by (rule tr)
  qed
qed


theorem continueSession_needs_a_nonempty_string_password_witness:
  "\<forall>cr.
     is_string JNull = False \<and>
     continueSession cr example_session JNull (JStr ''r=cm5kLW5vbmNlc3J2,s=AAAA,i=4096'') None =
       Inl (Error ''SASL: SCRAM-SERVER-FIRST-MESSAGE: client password must be a string'') \<and>
     password_value example_authenticating = JStr [] \<and>
     saslSession example_authenticating = Some example_session \<and>
     handleAuthSASLContinue cr ''r=cm5kLW5vbmNlc3J2,s=AAAA,i=4096'' example_authenticating =
       con_emit_error
         (Error ''SASL: SCRAM-SERVER-FIRST-MESSAGE: client password must be a non-empty string'')
         example_authenticating \<and>
     saslSession (handleAuthSASLContinue cr ''r=cm5kLW5vbmNlc3J2,s=AAAA,i=4096'' example_authenticating) =
       Some example_session \<and>
     (\<forall>r. Con (SCRAMClientFinalMessage r) \<notin>
            set (trace (handleAuthSASLContinue cr ''r=cm5kLW5vbmNlc3J2,s=AAAA,i=4096''
                          example_authenticating)))"
proof
  fix cr
  let ?d = "''r=cm5kLW5vbmNlc3J2,s=AAAA,i=4096''"
  have h1: "\<not> is_string JNull \<or> JNull = JStr []" by simp
  have h2: "password_value example_authenticating = JStr []"
    by (simp add: example_authenticating_def password_value_def)
  have h3: "saslSession example_authenticating = Some example_session"
    by (simp add: example_authenticating_def)
  have h4: "message example_session = ''SASLInitialResponse''"
    by (simp add: example_session_def)
  have h5: "trace example_authenticating = [Con (ConnectTcp 5432 ''localhost'')]"
    by code_simp
  from continueSession_needs_a_nonempty_string_password
         [of JNull cr example_session "JStr ?d" None example_authenticating example_session ?d]
       h1 h2 h3 h4 h5
  show "is_string JNull = False \<and>
     continueSession cr example_session JNull (JStr ?d) None =
       Inl (Error ''SASL: SCRAM-SERVER-FIRST-MESSAGE: client password must be a string'') \<and>
     password_value example_authenticating = JStr [] \<and>
     saslSession example_authenticating = Some example_session \<and>
     handleAuthSASLContinue cr ?d example_authenticating =
       con_emit_error
         (Error ''SASL: SCRAM-SERVER-FIRST-MESSAGE: client password must be a non-empty string'')
         example_authenticating \<and>
     saslSession (handleAuthSASLContinue cr ?d example_authenticating) = Some example_session \<and>
     (\<forall>r. Con (SCRAMClientFinalMessage r) \<notin>
            set (trace (handleAuthSASLContinue cr ?d example_authenticating)))"
    by auto
qed

end
